theory Spec2Isabelle
  imports Main
begin

section \<open>Borrower view of the lending dApp (frontend/src/components/Borrower.js)\<close>

text \<open>
  The component is a React function component: a handful of state cells, and event
  handlers that talk to three external collaborators (the injected wallet provider, the
  lending contract reached through ethers v5, and an HTTP price service).

  The embedding has three layers.
  \<^item> The values the handlers compute with: ECMAScript Number values (IEEE 754 binary64,
    round to nearest, ties to even), the conversions between strings and Numbers that
    the operators \<^verbatim>\<open>*\<close>, \<^verbatim>\<open>Number(...)\<close>, \<^verbatim>\<open>parseFloat\<close> and
    \<^verbatim>\<open>toString\<close> perform, and the ethers v5 utilities \<^verbatim>\<open>parseEther\<close>,
    \<^verbatim>\<open>formatEther\<close>, \<^verbatim>\<open>BigNumber.toNumber\<close> and \<^verbatim>\<open>hexlify\<close>.
    Strings are ASCII byte strings; BigNumbers are unbounded integers.
  \<^item> The collaborators: a record of the answers they give (a value, or a thrown error).
  \<^item> The handlers: each one is a function from the view state and the list of effects
    issued so far to a completion (normal, or a thrown error), the new view state and the
    extended list of effects.
\<close>

subsection \<open>ECMAScript Number values\<close>

text \<open>
  \<open>Fin neg m u\<close> is the finite double of magnitude \<open>m \<times> 2 ^ u\<close>, negative when \<open>neg\<close>, in
  its IEEE encoding: a normal number has \<open>2 ^ 52 \<le> m < 2 ^ 53\<close> and \<open>-1074 \<le> u \<le> 971\<close>, a
  subnormal number or a zero has \<open>0 \<le> m < 2 ^ 52\<close> and \<open>u = -1074\<close>. So every double has
  exactly one representation, and the two zeros are \<open>Fin False 0 (-1074)\<close> and
  \<open>Fin True 0 (-1074)\<close>.
\<close>

datatype number = NaN | Inf bool | Fin bool int int

definition pow2 :: "int \<Rightarrow> int" where
  "pow2 k = 2 ^ nat k"

definition pow10 :: "int \<Rightarrow> int" where
  "pow10 k = 10 ^ nat k"

fun bits :: "int \<Rightarrow> int" where
  "bits n = (if n \<le> 0 then 0 else 1 + bits (n div 2))"

declare bits.simps [simp del]

definition round_half_even :: "int \<Rightarrow> int \<Rightarrow> int" where
  "round_half_even a b =
     (let q = a div b; r = a mod b
      in if 2 * r < b then q
         else if b < 2 * r then q + 1
         else if even q then q else q + 1)"

text \<open>
  The double nearest to the exact quotient \<open>n / d\<close> (with \<open>d > 0\<close>), ties to even, with
  gradual underflow and overflow to infinity. \<open>e\<close> is the binary exponent of the
  quotient (\<open>2 ^ e \<le> n / d < 2 ^ (e + 1)\<close>) and \<open>u\<close> the exponent of its unit in the last place.
\<close>

definition round_to_double :: "bool \<Rightarrow> int \<Rightarrow> int \<Rightarrow> number" where
  "round_to_double neg n d =
     (if n = 0 then Fin neg 0 (- 1074)
      else
        let p = bits n - bits d;
            e = (if n * pow2 (- p) < d * pow2 p then p - 1 else p);
            u = max (e - 52) (- 1074);
            m = round_half_even (n * pow2 (- u)) (d * pow2 u);
            m' = (if m = 2 ^ 53 then 2 ^ 52 else m);
            u' = (if m = 2 ^ 53 then u + 1 else u)
        in if 971 < u' then Inf neg else Fin neg m' u')"

definition number_of_int :: "int \<Rightarrow> number" where
  "number_of_int i = round_to_double (i < 0) \<bar>i\<bar> 1"

definition signed :: "bool \<Rightarrow> int \<Rightarrow> int" where
  "signed neg m = (if neg then - m else m)"

text \<open>The operators \<^verbatim>\<open><\<close> and \<^verbatim>\<open><=\<close>: every comparison with NaN is false.\<close>

fun less_num :: "number \<Rightarrow> number \<Rightarrow> bool" where
  "less_num (Fin s1 m1 u1) (Fin s2 m2 u2) =
     (signed s1 m1 * pow2 (u1 - u2) < signed s2 m2 * pow2 (u2 - u1))"
| "less_num (Fin s m u) (Inf t) = (\<not> t)"
| "less_num (Inf t) (Fin s m u) = t"
| "less_num (Inf s) (Inf t) = (s \<and> \<not> t)"
| "less_num NaN y = False"
| "less_num x NaN = False"

definition is_nan :: "number \<Rightarrow> bool" where
  "is_nan x = (case x of NaN \<Rightarrow> True | _ \<Rightarrow> False)"

definition less_eq_num :: "number \<Rightarrow> number \<Rightarrow> bool" where
  "less_eq_num x y = (\<not> is_nan x \<and> \<not> is_nan y \<and> \<not> less_num y x)"

text \<open>The operators \<^verbatim>\<open>*\<close>, \<^verbatim>\<open>/\<close> and \<^verbatim>\<open>-\<close>: the exact result, rounded.\<close>

fun mul_num :: "number \<Rightarrow> number \<Rightarrow> number" where
  "mul_num (Fin s1 m1 u1) (Fin s2 m2 u2) =
     round_to_double (s1 \<noteq> s2) (m1 * m2 * pow2 (u1 + u2)) (pow2 (- (u1 + u2)))"
| "mul_num (Fin s m u) (Inf t) = (if m = 0 then NaN else Inf (s \<noteq> t))"
| "mul_num (Inf t) (Fin s m u) = (if m = 0 then NaN else Inf (s \<noteq> t))"
| "mul_num (Inf s) (Inf t) = Inf (s \<noteq> t)"
| "mul_num NaN y = NaN"
| "mul_num x NaN = NaN"

fun div_num :: "number \<Rightarrow> number \<Rightarrow> number" where
  "div_num (Fin s1 m1 u1) (Fin s2 m2 u2) =
     (if m2 = 0 then (if m1 = 0 then NaN else Inf (s1 \<noteq> s2))
      else round_to_double (s1 \<noteq> s2) (m1 * pow2 (u1 - u2)) (m2 * pow2 (u2 - u1)))"
| "div_num (Fin s m u) (Inf t) = Fin (s \<noteq> t) 0 (- 1074)"
| "div_num (Inf t) (Fin s m u) = Inf (s \<noteq> t)"
| "div_num (Inf s) (Inf t) = NaN"
| "div_num NaN y = NaN"
| "div_num x NaN = NaN"

fun sub_num :: "number \<Rightarrow> number \<Rightarrow> number" where
  "sub_num (Fin s1 m1 u1) (Fin s2 m2 u2) =
     (let k = min u1 u2;
          d = signed s1 (m1 * pow2 (u1 - k)) - signed s2 (m2 * pow2 (u2 - k))
      in if d = 0 then Fin (s1 \<and> \<not> s2) 0 (- 1074)
         else round_to_double (d < 0) (\<bar>d\<bar> * pow2 k) (pow2 (- k)))"
| "sub_num (Fin s m u) (Inf t) = Inf (\<not> t)"
| "sub_num (Inf t) (Fin s m u) = Inf t"
| "sub_num (Inf s) (Inf t) = (if s = t then NaN else Inf s)"
| "sub_num NaN y = NaN"
| "sub_num x NaN = NaN"

text \<open>\<^verbatim>\<open>Math.ceil\<close> and \<^verbatim>\<open>Math.floor\<close>.\<close>

fun ceil_num :: "number \<Rightarrow> number" where
  "ceil_num (Fin s m u) =
     (if 0 \<le> u then Fin s m u
      else let q = m div pow2 (- u); r = m mod pow2 (- u)
           in if s then round_to_double True q 1
              else round_to_double False (if r = 0 then q else q + 1) 1)"
| "ceil_num x = x"

fun floor_num :: "number \<Rightarrow> number" where
  "floor_num (Fin s m u) =
     (if 0 \<le> u then Fin s m u
      else let q = m div pow2 (- u); r = m mod pow2 (- u)
           in if s then round_to_double True (if r = 0 then q else q + 1) 1
              else round_to_double False q 1)"
| "floor_num x = x"

text \<open>Truthiness of a Number: NaN and the two zeros are falsy.\<close>

fun truthy_num :: "number \<Rightarrow> bool" where
  "truthy_num NaN = False"
| "truthy_num (Inf s) = True"
| "truthy_num (Fin s m u) = (m \<noteq> 0)"

subsection \<open>Strings and Numbers\<close>

definition is_digit :: "char \<Rightarrow> bool" where
  "is_digit c = (48 \<le> (of_char c :: int) \<and> (of_char c :: int) \<le> 57)"

definition digit_val :: "char \<Rightarrow> int" where
  "digit_val c = of_char c - 48"

definition digits_val :: "string \<Rightarrow> int" where
  "digits_val ds = foldl (\<lambda>a c. 10 * a + digit_val c) 0 ds"

definition is_space :: "char \<Rightarrow> bool" where
  "is_space c = ((of_char c :: int) \<in> {9, 10, 11, 12, 13, 32})"

definition trim :: "string \<Rightarrow> string" where
  "trim s = rev (dropWhile is_space (rev (dropWhile is_space s)))"

text \<open>An optional sign in front of a literal: whether it is a minus, and the rest.\<close>

definition scan_sign :: "string \<Rightarrow> bool \<times> string" where
  "scan_sign s =
     (case s of
        [] \<Rightarrow> (False, s)
      | c # t \<Rightarrow> if c = CHR ''-'' then (True, t)
                 else if c = CHR ''+'' then (False, t)
                 else (False, s))"

text \<open>
  The exponent part of a decimal literal, when there is one (\<^verbatim>\<open>e\<close> or \<^verbatim>\<open>E\<close>, an
  optional sign, at least one digit); otherwise exponent 0 and nothing consumed.
\<close>

definition scan_exponent :: "string \<Rightarrow> int \<times> string" where
  "scan_exponent s =
     (case s of
        [] \<Rightarrow> (0, s)
      | c # r \<Rightarrow>
          if c = CHR ''e'' \<or> c = CHR ''E'' then
            (let (neg, r') = scan_sign r;
                 ds = takeWhile is_digit r'
             in if ds = [] then (0, s)
                else (signed neg (digits_val ds), dropWhile is_digit r'))
          else (0, s))"

text \<open>
  The longest prefix that is a \<^verbatim>\<open>StrUnsignedDecimalLiteral\<close> (digits with an optional
  fraction, or a fraction alone, then an optional exponent): its digits \<open>D\<close> and power of
  ten \<open>x\<close>, for the value \<open>D \<times> 10\<^sup>x\<close>, and the rest of the string.
\<close>

definition scan_decimal :: "string \<Rightarrow> (int \<times> int \<times> string) option" where
  "scan_decimal s =
     (let ip = takeWhile is_digit s; r1 = dropWhile is_digit s
      in if r1 \<noteq> [] \<and> hd r1 = CHR ''.'' then
           (let fp = takeWhile is_digit (tl r1); r2 = dropWhile is_digit (tl r1)
            in if ip = [] \<and> fp = [] then None
               else (let (x, rest) = scan_exponent r2
                     in Some (digits_val (ip @ fp), x - int (length fp), rest)))
         else if ip = [] then None
         else (let (x, rest) = scan_exponent r1 in Some (digits_val ip, x, rest)))"

definition scan_signed :: "string \<Rightarrow> (number \<times> string) option" where
  "scan_signed s =
     (let (neg, r) = scan_sign s
      in if take 8 r = ''Infinity'' then Some (Inf neg, drop 8 r)
         else (case scan_decimal r of
                 None \<Rightarrow> None
               | Some (D, x, rest) \<Rightarrow>
                   Some (round_to_double neg (D * pow10 x) (pow10 (- x)), rest)))"

text \<open>\<^verbatim>\<open>parseFloat(s)\<close>: leading white space skipped, the longest numeric prefix, else NaN.\<close>

definition parseFloat :: "string \<Rightarrow> number" where
  "parseFloat s =
     (case scan_signed (dropWhile is_space s) of
        None \<Rightarrow> NaN
      | Some (v, rest) \<Rightarrow> v)"

text \<open>
  Literals in radix 16, 8 and 2 (\<^verbatim>\<open>0x\<close>, \<^verbatim>\<open>0o\<close>, \<^verbatim>\<open>0b\<close>), which
  \<^verbatim>\<open>Number(s)\<close> accepts without a sign.
\<close>

definition radix_digit :: "char \<Rightarrow> int" where
  "radix_digit c =
     (let n = (of_char c :: int)
      in if 48 \<le> n \<and> n \<le> 57 then n - 48
         else if 97 \<le> n \<and> n \<le> 122 then n - 87
         else if 65 \<le> n \<and> n \<le> 90 then n - 55
         else 36)"

definition radix_literal :: "int \<Rightarrow> string \<Rightarrow> number" where
  "radix_literal b ds =
     (if ds \<noteq> [] \<and> (\<forall>c \<in> set ds. radix_digit c < b)
      then round_to_double False (foldl (\<lambda>a c. b * a + radix_digit c) 0 ds) 1
      else NaN)"

text \<open>
  \<^verbatim>\<open>Number(s)\<close>, and the conversion the arithmetic operators apply to a string operand:
  the whole trimmed string must be a numeric literal; the empty string is 0.
\<close>

definition string_to_number :: "string \<Rightarrow> number" where
  "string_to_number s =
     (let t = trim s
      in if t = [] then Fin False 0 (- 1074)
         else if take 2 t = ''0x'' \<or> take 2 t = ''0X'' then radix_literal 16 (drop 2 t)
         else if take 2 t = ''0o'' \<or> take 2 t = ''0O'' then radix_literal 8 (drop 2 t)
         else if take 2 t = ''0b'' \<or> take 2 t = ''0B'' then radix_literal 2 (drop 2 t)
         else (case scan_signed t of
                 Some (v, []) \<Rightarrow> v
               | _ \<Rightarrow> NaN))"

text \<open>Decimal digits of a natural number.\<close>

fun dec_string :: "int \<Rightarrow> string" where
  "dec_string n =
     (if n < 10 then [char_of (48 + n)]
      else dec_string (n div 10) @ [char_of (48 + n mod 10)])"

declare dec_string.simps [simp del]

text \<open>
  The decimal exponent \<open>n\<close> of a positive quotient: \<open>10 ^ (n - 1) \<le> a / b < 10 ^ n\<close>.
  Below 1 it is minus the number of zeros that follow the decimal point.
\<close>

function lead_zeros :: "int \<Rightarrow> int \<Rightarrow> int" where
  "lead_zeros a b = (if a \<le> 0 \<or> b \<le> 10 * a then 0 else 1 + lead_zeros (10 * a) b)"
  by pat_completeness auto
termination
  by (relation "measure (\<lambda>(a, b). nat (b - a))") auto

declare lead_zeros.simps [simp del]

definition dec_exponent :: "int \<Rightarrow> int \<Rightarrow> int" where
  "dec_exponent a b =
     (if b \<le> a then int (length (dec_string (a div b)))
      else - lead_zeros a b)"

text \<open>
  \<^verbatim>\<open>Number.prototype.toString\<close> (radix 10) prints the shortest digit string \<open>s\<close>, of \<open>k\<close>
  digits, such that \<open>s \<times> 10 ^ (n - k)\<close> converts back to the same Number, and where two
  strings of that length do, the one nearer to the Number. \<open>shortest a b x n k\<close> looks
  for it from \<open>k\<close> digits on, for the Number \<open>x\<close> of exact value \<open>a / b\<close> and decimal
  exponent \<open>n\<close>; the candidates with \<open>k\<close> digits are the two neighbours \<open>lo\<close> and \<open>hi\<close>
  of \<open>a / b\<close> on the grid of step \<open>10 ^ (n - k)\<close>. Seventeen digits identify every
  double, so the bound of 21 digits is never reached.
\<close>

definition roundtrips :: "number \<Rightarrow> int \<Rightarrow> int \<Rightarrow> bool" where
  "roundtrips x s e = (round_to_double False (s * pow10 e) (pow10 (- e)) = x)"

function shortest :: "int \<Rightarrow> int \<Rightarrow> number \<Rightarrow> int \<Rightarrow> nat \<Rightarrow> int \<times> int" where
  "shortest a b x n k =
     (let e = n - int k;
          num = a * pow10 (- e);
          den = b * pow10 e;
          lo = num div den;
          r = num mod den;
          hi = lo + 1;
          ok_lo = roundtrips x lo e;
          ok_hi = roundtrips x hi e;
          pick = (if ok_lo \<and> ok_hi
                  then (if 2 * r < den \<or> (2 * r = den \<and> even lo) then lo else hi)
                  else if ok_lo then lo else hi)
      in if ok_lo \<or> ok_hi \<or> 21 \<le> k
         then (if pick = 10 ^ k then (10 ^ (k - 1), n + 1) else (pick, n))
         else shortest a b x n (k + 1))"
  by pat_completeness auto
termination
  by (relation "measure (\<lambda>(a, b, x, n, k). 21 - k)") auto

declare shortest.simps [simp del]

definition exponent_string :: "int \<Rightarrow> string" where
  "exponent_string e = (if e < 0 then ''-'' else ''+'') @ dec_string \<bar>e\<bar>"

definition format_digits :: "int \<times> int \<Rightarrow> string" where
  "format_digits sn =
     (let ds = dec_string (fst sn); n = snd sn; k = int (length ds)
      in if k \<le> n \<and> n \<le> 21 then ds @ replicate (nat (n - k)) CHR ''0''
         else if 0 < n \<and> n \<le> 21 then take (nat n) ds @ ''.'' @ drop (nat n) ds
         else if - 6 < n \<and> n \<le> 0 then ''0.'' @ replicate (nat (- n)) CHR ''0'' @ ds
         else if k = 1 then ds @ ''e'' @ exponent_string (n - 1)
         else take 1 ds @ ''.'' @ drop 1 ds @ ''e'' @ exponent_string (n - 1))"

fun number_to_string :: "number \<Rightarrow> string" where
  "number_to_string NaN = ''NaN''"
| "number_to_string (Inf neg) = (if neg then ''-Infinity'' else ''Infinity'')"
| "number_to_string (Fin neg m u) =
     (if m = 0 then ''0''
      else (if neg then ''-'' else []) @
           format_digits
             (shortest (m * pow2 u) (pow2 (- u)) (Fin False m u)
                (dec_exponent (m * pow2 u) (pow2 (- u))) 1))"

subsection \<open>ethers v5 utilities\<close>

text \<open>
  A thrown value, with the \<^verbatim>\<open>reason\<close> property the handlers read: ethers errors carry
  one, other errors do not.
\<close>

datatype error = Error (reason: "string option")

text \<open>
  \<^verbatim>\<open>ethers.utils.parseEther(s)\<close>, that is \<^verbatim>\<open>parseFixed(s, 18)\<close>: an optional minus,
  then digits and points only; at most one point; at most 18 fraction digits once
  trailing zeros are dropped. The result is in wei.
\<close>

definition strip_zeros :: "string \<Rightarrow> string" where
  "strip_zeros f = rev (dropWhile (\<lambda>c. c = CHR ''0'') (rev f))"

definition parseEther :: "string \<Rightarrow> error + int" where
  "parseEther v =
     (let neg = (take 1 v = ''-''); body = (if neg then drop 1 v else v)
      in if body = [] \<or> (\<exists>c \<in> set body. \<not> (is_digit c \<or> c = CHR ''.''))
         then Inl (Error (Some ''invalid decimal value''))
         else if body = ''.'' then Inl (Error (Some ''missing value''))
         else
           let whole = takeWhile is_digit body;
               after = dropWhile is_digit body;
               frac = strip_zeros (drop 1 after)
           in if \<exists>c \<in> set (drop 1 after). c = CHR ''.''
              then Inl (Error (Some ''too many decimal points''))
              else if 18 < length frac
              then Inl (Error (Some ''fractional component exceeds decimals''))
              else
                let wei = digits_val whole * 10 ^ 18
                          + digits_val frac * 10 ^ (18 - length frac)
                in Inr (if neg then - wei else wei))"

text \<open>
  \<^verbatim>\<open>ethers.utils.formatEther(wei)\<close>, that is \<^verbatim>\<open>formatFixed(wei, 18)\<close>: the whole part,
  a point, and the 18 fraction digits without their trailing zeros (one digit at least).
\<close>

definition formatEther :: "int \<Rightarrow> string" where
  "formatEther wei =
     (let a = \<bar>wei\<bar>;
          f = dec_string (a mod 10 ^ 18);
          padded = replicate (18 - length f) CHR ''0'' @ f;
          frac = (if strip_zeros padded = [] then ''0'' else strip_zeros padded)
      in (if wei < 0 then ''-'' else []) @ dec_string (a div 10 ^ 18) @ ''.'' @ frac)"

text \<open>
  \<^verbatim>\<open>BigNumber.toNumber()\<close> throws a numeric fault when the value needs more than 53
  bits; otherwise the value is a safe integer and the Number is exact.
\<close>

definition toNumber :: "int \<Rightarrow> error + number" where
  "toNumber v =
     (if \<bar>v\<bar> < 2 ^ 53 then Inr (number_of_int v)
      else Inl (Error (Some ''overflow'')))"

text \<open>BigNumber \<^verbatim>\<open>div\<close> truncates towards zero.\<close>

definition bn_div :: "int \<Rightarrow> int \<Rightarrow> int" where
  "bn_div a b = sgn a * sgn b * (\<bar>a\<bar> div \<bar>b\<bar>)"

text \<open>\<^verbatim>\<open>ethers.utils.hexlify(n)\<close> of a number: hexadecimal, an even number of digits.\<close>

fun hex_string :: "int \<Rightarrow> string" where
  "hex_string n =
     (if n \<le> 0 then []
      else hex_string (n div 16) @
           [if n mod 16 < 10 then char_of (48 + n mod 16) else char_of (87 + n mod 16)])"

declare hex_string.simps [simp del]

definition hexlify :: "int \<Rightarrow> string" where
  "hexlify n =
     (let h = hex_string n
      in if h = [] then ''0x00''
         else if odd (length h) then ''0x0'' @ h else ''0x'' @ h)"

text \<open>\<^verbatim>\<open>String.prototype.toLowerCase\<close>, on ASCII.\<close>

definition toLowerCase :: "string \<Rightarrow> string" where
  "toLowerCase s =
     map (\<lambda>c. if 65 \<le> (of_char c :: int) \<and> (of_char c :: int) \<le> 90
              then char_of ((of_char c :: int) + 32) else c) s"

subsection \<open>View state\<close>

text \<open>
  The state cells of the component. \<open>account\<close> is a string or \<^verbatim>\<open>undefined\<close> (\<open>None\<close>, what
  \<^verbatim>\<open>accounts[0]\<close> is for an empty list); \<open>contract\<close> is \<^verbatim>\<open>null\<close> (\<open>None\<close>) or the handle
  bound to the contract address.
\<close>

record form_data =
  amount :: string
  date :: string
  collateral :: string
  interestRate :: string

text \<open>
  A row of the loan table. Rows built from active loans carry \<open>endTime\<close>, rows built from
  requests carry \<open>duration\<close>; \<open>rate\<close> is the row's \<^verbatim>\<open>interestRate\<close> property.
\<close>

record loan_row =
  loanId :: number
  borrower :: string
  loanAmount :: string
  endTime :: "string option"
  duration :: "number option"
  rate :: number
  stake :: string
  state :: string

datatype contract = Contract string

record view_state =
  formData :: form_data
  account :: "string option"
  balance :: string
  contract :: "contract option"
  activeLoans :: "loan_row list"
  showToast :: bool
  toastMessage :: string
  toastVariant :: string

definition empty_form :: form_data where
  "empty_form = \<lparr>amount = [], date = [], collateral = [], interestRate = []\<rparr>"

definition initial_state :: view_state where
  "initial_state =
     \<lparr>formData = empty_form, account = Some [], balance = [], contract = None,
      activeLoans = [], showToast = False, toastMessage = [], toastVariant = ''success''\<rparr>"

subsection \<open>External collaborators\<close>

text \<open>
  Modelled from the spec: the contract's interface descriptor
  (\<^verbatim>\<open>contracts/LendingPlatform.json\<close>) is not among the sources. The structs the contract
  returns have the fields the component reads; identifiers, timestamps (unix seconds),
  durations, rates and amounts (base units) are integers of the contract, which ethers
  hands over as BigNumbers.
\<close>

record loan_struct =
  ln_borrower :: string
  ln_loanAmount :: int
  ln_endTime :: int
  ln_interestRate :: int
  ln_stake :: int

record request_struct =
  rq_borrower :: string
  rq_loanAmount :: int
  rq_duration :: int
  rq_stake :: int
  rq_interestRate :: int

record overrides =
  tx_value :: int
  tx_nonce :: "number option"
  tx_gasLimit :: string

text \<open>
  What the collaborators answer: a value, or a thrown error (\<open>Inl\<close>; for a call without a
  result, \<open>Some\<close>). \<open>now\<close> is the time value of \<^verbatim>\<open>new Date()\<close> and \<open>dateValue s\<close> the time
  value of \<^verbatim>\<open>new Date(s)\<close>, NaN for an invalid date.
\<close>

record env =
  web3Provider :: "error option"
  requestAccounts :: "error + string list"
  getBalance :: "string option \<Rightarrow> error + int"
  getTransactionCount :: "string option \<Rightarrow> error + number"
  now :: number
  dateValue :: "string \<Rightarrow> number"
  toLocaleDateString :: "number \<Rightarrow> string"
  sendCreateLoanRequest :: "int \<Rightarrow> number \<Rightarrow> number \<Rightarrow> overrides \<Rightarrow> error option"
  sendRepayLoan :: "number \<Rightarrow> overrides \<Rightarrow> error option"
  waitTx :: "error option"
  getAllActiveLoans ::
    "error + (int list \<times> loan_struct list \<times> int list \<times> request_struct list)"
  readActiveLoan :: "number \<Rightarrow> error + loan_struct"
  fetchEthPrice :: "error + number"

text \<open>Everything a handler does besides writing the state cells, in the order issued.\<close>

datatype effect =
    PreventDefault
  | ConsoleError string
  | SubscribeAccountsChanged
  | RequestAccounts
  | GetBalance "string option"
  | GetTransactionCount "string option"
  | SendCreateLoanRequest int number number overrides
  | SendRepayLoan number overrides
  | WaitTx
  | GetAllActiveLoans
  | ReadActiveLoan number
  | FetchEthPrice

fun is_transaction :: "effect \<Rightarrow> bool" where
  "is_transaction (SendCreateLoanRequest a d r ov) = True"
| "is_transaction (SendRepayLoan i ov) = True"
| "is_transaction _ = False"

fun is_network_call :: "effect \<Rightarrow> bool" where
  "is_network_call PreventDefault = False"
| "is_network_call (ConsoleError m) = False"
| "is_network_call SubscribeAccountsChanged = False"
| "is_network_call _ = True"

subsection \<open>Asynchronous functions\<close>

text \<open>
  An \<^verbatim>\<open>async\<close> function runs on the current state cells and the effects issued so far,
  and completes normally (\<open>Inr\<close>) or by throwing (\<open>Inl\<close>, a rejected promise); the writes
  and effects made before a throw stay.
\<close>

record run =
  view :: view_state
  effects :: "effect list"

type_synonym 'a action = "run \<Rightarrow> (error + 'a) \<times> run"

definition ret :: "'a \<Rightarrow> 'a action" where
  "ret x = (\<lambda>r. (Inr x, r))"

definition throw :: "error \<Rightarrow> 'a action" where
  "throw e = (\<lambda>r. (Inl e, r))"

definition bind :: "'a action \<Rightarrow> ('a \<Rightarrow> 'b action) \<Rightarrow> 'b action" where
  "bind m f = (\<lambda>r. case m r of (Inl e, r') \<Rightarrow> (Inl e, r') | (Inr x, r') \<Rightarrow> f x r')"

definition seq :: "'a action \<Rightarrow> 'b action \<Rightarrow> 'b action" where
  "seq m n = bind m (\<lambda>x. n)"

definition try_catch :: "'a action \<Rightarrow> (error \<Rightarrow> 'a action) \<Rightarrow> 'a action" where
  "try_catch m h = (\<lambda>r. case m r of (Inl e, r') \<Rightarrow> h e r' | (Inr x, r') \<Rightarrow> (Inr x, r'))"

definition emit :: "effect \<Rightarrow> unit action" where
  "emit ev = (\<lambda>r. (Inr (), r\<lparr>effects := effects r @ [ev]\<rparr>))"

definition modify :: "(view_state \<Rightarrow> view_state) \<Rightarrow> unit action" where
  "modify f = (\<lambda>r. (Inr (), r\<lparr>view := f (view r)\<rparr>))"

definition lift :: "error + 'a \<Rightarrow> 'a action" where
  "lift x = (case x of Inl e \<Rightarrow> throw e | Inr v \<Rightarrow> ret v)"

definition lift_unit :: "error option \<Rightarrow> unit action" where
  "lift_unit x = (case x of Some e \<Rightarrow> throw e | None \<Rightarrow> ret ())"

text \<open>An awaited call of a collaborator: the call is issued, then its answer arrives.\<close>

definition call :: "effect \<Rightarrow> error + 'a \<Rightarrow> 'a action" where
  "call ev answer = seq (emit ev) (lift answer)"

definition call_unit :: "effect \<Rightarrow> error option \<Rightarrow> unit action" where
  "call_unit ev answer = seq (emit ev) (lift_unit answer)"

text \<open>\<^verbatim>\<open>xs.map(f)\<close> where \<open>f\<close> may throw: the first throw ends the loop.\<close>

fun traverse :: "('a \<Rightarrow> error + 'b) \<Rightarrow> 'a list \<Rightarrow> error + 'b list" where
  "traverse f [] = Inr []"
| "traverse f (x # xs) =
     (case f x of
        Inl e \<Rightarrow> Inl e
      | Inr y \<Rightarrow> (case traverse f xs of Inl e \<Rightarrow> Inl e | Inr ys \<Rightarrow> Inr (y # ys)))"

text \<open>A step that may throw, followed by the rest of the expression.\<close>

definition and_then :: "error + 'a \<Rightarrow> ('a \<Rightarrow> error + 'b) \<Rightarrow> error + 'b" where
  "and_then x f = (case x of Inl e \<Rightarrow> Inl e | Inr v \<Rightarrow> f v)"

text \<open>\<^verbatim>\<open>xs[i].field\<close>: a TypeError (an error without \<^verbatim>\<open>reason\<close>) out of range.\<close>

definition element :: "'a list \<Rightarrow> nat \<Rightarrow> error + 'a" where
  "element xs i = (if i < length xs then Inr (xs ! i) else Inl (Error None))"

text \<open>\<^verbatim>\<open>error.reason || fallback\<close>: the empty string is falsy, like \<^verbatim>\<open>undefined\<close>.\<close>

definition reason_or :: "error \<Rightarrow> string \<Rightarrow> string" where
  "reason_or e fallback =
     (case reason e of
        None \<Rightarrow> fallback
      | Some r \<Rightarrow> if r = [] then fallback else r)"

text \<open>\<^verbatim>\<open>!account\<close>.\<close>

definition falsy_string :: "string option \<Rightarrow> bool" where
  "falsy_string a = (case a of None \<Rightarrow> True | Some s \<Rightarrow> s = [])"

text \<open>\<^verbatim>\<open>accounts[0]\<close>.\<close>

definition first_account :: "string list \<Rightarrow> string option" where
  "first_account accounts = (case accounts of [] \<Rightarrow> None | a # rest \<Rightarrow> Some a)"

subsection \<open>The component's functions\<close>

text \<open>
  A handler reads the state cells of the render in which it was created (its closure,
  the argument \<open>c\<close>) and writes the current cells. A handler started from the page runs on
  the latest render, so there \<open>c\<close> is the current view.
\<close>

text \<open>\<open>showToastMessage\<close> (lines 236 to 240).\<close>

definition showToastMessage :: "string \<Rightarrow> string \<Rightarrow> view_state \<Rightarrow> view_state" where
  "showToastMessage message variant s =
     s\<lparr>toastMessage := message, toastVariant := variant, showToast := True\<rparr>"




text \<open>\<open>loadContract\<close> (lines 37 to 48) and \<open>updateBalance\<close> (lines 72 to 76).\<close>

definition contractAddress :: string where
  "contractAddress = ''0x9fE46736679d2D9a65F0992F2272dE9f3c7fa6e0''"


text \<open>
  The listener that \<open>connectWallet\<close> registers for \<^verbatim>\<open>accountsChanged\<close> (lines 60 to 64),
  and \<open>connectWallet\<close> (lines 51 to 69).
\<close>

definition accountsChanged :: "env \<Rightarrow> string list \<Rightarrow> unit action" where
  "accountsChanged env accounts =
     seq (modify (\<lambda>s. s\<lparr>account := first_account accounts\<rparr>))
         (bind (call (GetBalance (first_account accounts))
                  (getBalance env (first_account accounts)))
            (\<lambda>newBalance. modify (\<lambda>s. s\<lparr>balance := formatEther newBalance\<rparr>)))"


definition updateBalance :: "env \<Rightarrow> view_state \<Rightarrow> unit action" where
  "updateBalance env c =
     seq (lift_unit (web3Provider env))
         (bind (call (GetBalance (account c)) (getBalance env (account c)))
            (\<lambda>newBalance. modify (\<lambda>s. s\<lparr>balance := formatEther newBalance\<rparr>)))"

text \<open>
  \<open>handleInputChange\<close> (lines 79 to 96), on the name and the value of the event's target.
  In \<^verbatim>\<open>{ ...prev, [name]: value }\<close> the form reads four properties; a write under any
  other name adds a property that nothing reads.
\<close>

definition set_field :: "string \<Rightarrow> string \<Rightarrow> form_data \<Rightarrow> form_data" where
  "set_field name v prev =
     (if name = ''amount'' then prev\<lparr>amount := v\<rparr>
      else if name = ''date'' then prev\<lparr>date := v\<rparr>
      else if name = ''collateral'' then prev\<lparr>collateral := v\<rparr>
      else if name = ''interestRate'' then prev\<lparr>interestRate := v\<rparr>
      else prev)"

definition handleInputChange :: "string \<Rightarrow> string \<Rightarrow> view_state \<Rightarrow> view_state" where
  "handleInputChange name v s =
     (if name = ''interestRate'' then
        (let rate = parseFloat v
         in if less_num (number_of_int 7) rate
            then showToastMessage ''Interest rate cannot exceed 7%'' ''warning'' s
            else if less_num rate (number_of_int 0)
            then showToastMessage ''Interest rate cannot be negative'' ''warning'' s
            else s\<lparr>formData := set_field name v (formData s)\<rparr>)
      else s\<lparr>formData := set_field name v (formData s)\<rparr>)"

definition active_row :: "env \<Rightarrow> loan_struct list \<Rightarrow> int \<times> nat \<Rightarrow> error + loan_row" where
  "active_row env loans p =
     and_then (toNumber (fst p)) (\<lambda>n.
     and_then (element loans (snd p)) (\<lambda>l.
     and_then (toNumber (ln_endTime l)) (\<lambda>t.
     and_then (toNumber (ln_interestRate l)) (\<lambda>r.
       Inr \<lparr>loanId = n, borrower = ln_borrower l,
            loanAmount = formatEther (ln_loanAmount l),
            endTime = Some (toLocaleDateString env (mul_num t (number_of_int 1000))),
            duration = None, rate = r, stake = formatEther (ln_stake l),
            state = ''ACTIVE''\<rparr>))))"

definition request_row :: "request_struct list \<Rightarrow> int \<times> nat \<Rightarrow> error + loan_row" where
  "request_row requests p =
     and_then (toNumber (fst p)) (\<lambda>n.
     and_then (element requests (snd p)) (\<lambda>q.
     and_then (toNumber (rq_duration q)) (\<lambda>d.
     and_then (toNumber (rq_interestRate q)) (\<lambda>r.
       Inr \<lparr>loanId = n, borrower = rq_borrower q,
            loanAmount = formatEther (rq_loanAmount q),
            endTime = None, duration = Some d, rate = r,
            stake = formatEther (rq_stake q), state = ''PENDING''\<rparr>))))"

definition with_index :: "'a list \<Rightarrow> ('a \<times> nat) list" where
  "with_index xs = zip xs [0 ..< length xs]"

text \<open>
  \<open>loadActiveLoans\<close> (lines 147 to 183): its \<^verbatim>\<open>try\<close> block, and the function with the
  guard on the contract handle and the account and the \<^verbatim>\<open>catch\<close> block.
\<close>

definition loadActiveLoans_try :: "env \<Rightarrow> view_state \<Rightarrow> unit action" where
  "loadActiveLoans_try env c =
     bind (call GetAllActiveLoans (getAllActiveLoans env))
       (\<lambda>(loanIds, loans, requestIds, requests).
     bind (lift (traverse (active_row env loans) (with_index loanIds)))
       (\<lambda>activeLoansData.
     bind (lift (traverse (request_row requests) (with_index requestIds)))
       (\<lambda>requestLoansData.
     modify (\<lambda>s. s\<lparr>activeLoans :=
       filter (\<lambda>loan. Some (toLowerCase (borrower loan))
                        = map_option toLowerCase (account c))
         (activeLoansData @ requestLoansData)\<rparr>))))"

definition loadActiveLoans :: "env \<Rightarrow> view_state \<Rightarrow> unit action" where
  "loadActiveLoans env c =
     (if contract c = None \<or> falsy_string (account c) then ret ()
      else
        try_catch (loadActiveLoans_try env c)
          (\<lambda>error.
             seq (emit (ConsoleError ''Error loading loans:''))
                 (modify (showToastMessage ''Error loading loans'' ''danger''))))"

definition gasLimit :: string where
  "gasLimit = hexlify 1000000"

text \<open>
  The loan's duration in whole days (line 107): the milliseconds from now to the due
  date, divided by the milliseconds of a day, rounded up.
\<close>

definition durationInDays :: "env \<Rightarrow> form_data \<Rightarrow> number" where
  "durationInDays env fd =
     ceil_num (div_num (sub_num (dateValue env (date fd)) (now env))
                       (number_of_int (1000 * 60 * 60 * 24)))"

text \<open>
  \<open>createLoanRequest\<close> (lines 99 to 144): its \<^verbatim>\<open>try\<close> block, and the function with the
  guard on the contract handle and the \<^verbatim>\<open>catch\<close> block.
\<close>

definition createLoanRequest_try :: "env \<Rightarrow> view_state \<Rightarrow> unit action" where
  "createLoanRequest_try env c =
     bind (lift (parseEther (amount (formData c)))) (\<lambda>amountInWei.
     bind (lift (parseEther (collateral (formData c)))) (\<lambda>collateralInWei.
     let durationInDays = durationInDays env (formData c);
         interestRate = floor_num (string_to_number (interestRate (formData c)))
     in if less_eq_num durationInDays (number_of_int 0)
        then modify (showToastMessage ''Repayment date must be in the future'' ''warning'')
        else
          seq (lift_unit (web3Provider env))
         (bind (call (GetTransactionCount (account c))
                  (getTransactionCount env (account c))) (\<lambda>nonce.
          seq (call_unit
                 (SendCreateLoanRequest amountInWei durationInDays interestRate
                    \<lparr>tx_value = collateralInWei, tx_nonce = Some nonce,
                     tx_gasLimit = gasLimit\<rparr>)
                 (sendCreateLoanRequest env amountInWei durationInDays interestRate
                    \<lparr>tx_value = collateralInWei, tx_nonce = Some nonce,
                     tx_gasLimit = gasLimit\<rparr>))
         (seq (call_unit WaitTx (waitTx env))
         (seq (updateBalance env c)
         (seq (loadActiveLoans env c)
         (seq (modify (\<lambda>s. s\<lparr>formData := empty_form\<rparr>))
              (modify (showToastMessage ''Loan request created successfully''
                         ''success''))))))))))"

definition createLoanRequest :: "env \<Rightarrow> view_state \<Rightarrow> unit action" where
  "createLoanRequest env c =
     seq (emit PreventDefault)
       (if contract c = None then ret ()
        else
          try_catch (createLoanRequest_try env c)
            (\<lambda>error.
               seq (emit (ConsoleError ''Error:''))
                   (modify (showToastMessage (reason_or error ''Transaction failed'')
                              ''danger''))))"

text \<open>
  \<open>getEthPrice\<close> (lines 224 to 233) returns the price that the service quotes, or
  \<^verbatim>\<open>null\<close> (\<open>None\<close>) when the fetch or the reading of its answer throws.
\<close>

definition getEthPrice :: "env \<Rightarrow> number option action" where
  "getEthPrice env =
     seq (emit FetchEthPrice)
       (case fetchEthPrice env of
          Inl error \<Rightarrow> seq (emit (ConsoleError ''Error fetching ETH price:'')) (ret None)
        | Inr usd \<Rightarrow> ret (Some usd))"

text \<open>\<^verbatim>\<open>!currentEthPrice\<close>.\<close>

definition falsy_price :: "number option \<Rightarrow> bool" where
  "falsy_price p = (case p of None \<Rightarrow> True | Some x \<Rightarrow> \<not> truthy_num x)"

text \<open>
  \<open>repayLoan\<close> (lines 186 to 222): its \<^verbatim>\<open>try\<close> block, and the function with the guard
  on the contract handle and the \<^verbatim>\<open>catch\<close> block. The operand \<open>loanAmountInEth\<close> of
  the multiplication is a string, which the operator converts to a Number.
\<close>

definition repayLoan_try :: "env \<Rightarrow> view_state \<Rightarrow> number \<Rightarrow> unit action" where
  "repayLoan_try env c loanId' =
     bind (call (ReadActiveLoan loanId') (readActiveLoan env loanId')) (\<lambda>loan.
     bind (getEthPrice env) (\<lambda>currentEthPrice.
     if falsy_price currentEthPrice
     then modify (showToastMessage ''Error fetching ETH price'' ''danger'')
     else
       let price = (case currentEthPrice of Some x \<Rightarrow> x | None \<Rightarrow> NaN);
           loanAmountInEth = formatEther (ln_loanAmount loan);
           loanAmountInUSD = mul_num (string_to_number loanAmountInEth) price;
           requiredEthAmount = div_num loanAmountInUSD price
       in bind (lift (parseEther (number_to_string requiredEthAmount))) (\<lambda>requiredEthWei.
          let interest = bn_div (requiredEthWei * ln_interestRate loan) 100;
              totalDue = requiredEthWei + interest
          in seq (call_unit
                    (SendRepayLoan loanId'
                       \<lparr>tx_value = totalDue, tx_nonce = None, tx_gasLimit = gasLimit\<rparr>)
                    (sendRepayLoan env loanId'
                       \<lparr>tx_value = totalDue, tx_nonce = None, tx_gasLimit = gasLimit\<rparr>))
            (seq (call_unit WaitTx (waitTx env))
            (seq (modify (showToastMessage ''Loan repaid successfully'' ''success''))
            (seq (updateBalance env c)
                 (loadActiveLoans env c)))))))"

definition repayLoan :: "env \<Rightarrow> view_state \<Rightarrow> number \<Rightarrow> unit action" where
  "repayLoan env c loanId' =
     (if contract c = None then ret ()
      else
        try_catch (repayLoan_try env c loanId')
          (\<lambda>error.
             seq (emit (ConsoleError ''Error repaying loan:''))
                 (modify (showToastMessage (reason_or error ''Error repaying loan'')
                            ''danger''))))"


text \<open>Running a handler from the page: on the current view, with no effect issued yet.\<close>

definition start :: "view_state \<Rightarrow> run" where
  "start s = \<lparr>view = s, effects = []\<rparr>"

subsection \<open>Events of the page\<close>




subsection \<open>Invariants of the view\<close>



text \<open>
  The transactions among the effects of a run, and what it means for an asynchronous
  function to leave an observation of the run as it was.
\<close>

definition transactions :: "run \<Rightarrow> effect list" where
  "transactions r = filter is_transaction (effects r)"

definition stable :: "(run \<Rightarrow> 'b) \<Rightarrow> 'a action \<Rightarrow> bool" where
  "stable g m = (\<forall>r. g (snd (m r)) = g r)"


subsection \<open>The range of interest rates, as the specification describes it\<close>

text \<open>
  The exact order between a Number and an integer \<open>k\<close>: the finite Number \<open>m \<times> 2 ^ u\<close>
  is compared with \<open>k\<close> after both are scaled by the power of two that makes them
  integers. NaN is neither above nor below anything. A Number is outside \<open>[0, 7]\<close> when
  it is below 0 or above 7.
\<close>

definition exceeds :: "number \<Rightarrow> int \<Rightarrow> bool" where
  "exceeds x k =
     (case x of
        NaN \<Rightarrow> False
      | Inf neg \<Rightarrow> \<not> neg
      | Fin neg m u \<Rightarrow> k * pow2 (- u) < signed neg m * pow2 u)"

definition falls_below :: "number \<Rightarrow> int \<Rightarrow> bool" where
  "falls_below x k =
     (case x of
        NaN \<Rightarrow> False
      | Inf neg \<Rightarrow> neg
      | Fin neg m u \<Rightarrow> signed neg m * pow2 u < k * pow2 (- u))"

definition outside_0_7 :: "number \<Rightarrow> bool" where
  "outside_0_7 x = (falls_below x 0 \<or> exceeds x 7)"

subsection \<open>The loan table, as the specification describes it\<close>

text \<open>
  The view-model of one active loan and of one request, the comparison of addresses
  without regard to case, and the list to display: the active records, then the
  requests, each in source order, those of the connected address only. An integer is
  safe when a Number holds it exactly and \<^verbatim>\<open>toNumber\<close> accepts it.
\<close>

definition safe_integer :: "int \<Rightarrow> bool" where
  "safe_integer v = (\<bar>v\<bar> < 2 ^ 53)"

definition active_view :: "env \<Rightarrow> int \<times> loan_struct \<Rightarrow> loan_row" where
  "active_view env p =
     \<lparr>loanId = number_of_int (fst p), borrower = ln_borrower (snd p),
      loanAmount = formatEther (ln_loanAmount (snd p)),
      endTime = Some (toLocaleDateString env
                        (mul_num (number_of_int (ln_endTime (snd p))) (number_of_int 1000))),
      duration = None, rate = number_of_int (ln_interestRate (snd p)),
      stake = formatEther (ln_stake (snd p)), state = ''ACTIVE''\<rparr>"

definition request_view :: "int \<times> request_struct \<Rightarrow> loan_row" where
  "request_view p =
     \<lparr>loanId = number_of_int (fst p), borrower = rq_borrower (snd p),
      loanAmount = formatEther (rq_loanAmount (snd p)),
      endTime = None, duration = Some (number_of_int (rq_duration (snd p))),
      rate = number_of_int (rq_interestRate (snd p)),
      stake = formatEther (rq_stake (snd p)), state = ''PENDING''\<rparr>"

definition same_address :: "string \<Rightarrow> string \<Rightarrow> bool" where
  "same_address a b = (toLowerCase a = toLowerCase b)"

definition displayed_rows ::
  "env \<Rightarrow> string \<Rightarrow> int list \<Rightarrow> loan_struct list \<Rightarrow> int list \<Rightarrow> request_struct list
     \<Rightarrow> loan_row list" where
  "displayed_rows env a loanIds loans requestIds requests =
     filter (\<lambda>row. same_address (borrower row) a)
       (map (active_view env) (zip loanIds loans) @ map request_view (zip requestIds requests))"

subsection \<open>A test double for the collaborators\<close>

text \<open>
  Two accounts, one active loan of the first and one pending request of the second, and
  collaborators that answer every call: the wallet holds 5 ether, the clock stands at
  2023-11-15T00:00:00Z, the price service quotes a given price.
\<close>

definition alice :: string where
  "alice = ''0x70997970C51812dc3A010C7d01b50e0d17dc79C8''"

definition bob :: string where
  "bob = ''0x3C44CdDdB6a900fa2b585dd299e03d12FA4293BC''"

definition loan_of_alice :: loan_struct where
  "loan_of_alice =
     \<lparr>ln_borrower = alice, ln_loanAmount = 3000000000000000000, ln_endTime = 1700870400,
      ln_interestRate = 5, ln_stake = 6000000000000000000\<rparr>"

definition request_of_bob :: request_struct where
  "request_of_bob =
     \<lparr>rq_borrower = bob, rq_loanAmount = 1000000000000000000, rq_duration = 10,
      rq_stake = 2000000000000000000, rq_interestRate = 5\<rparr>"

definition fake_env :: "string \<Rightarrow> env" where
  "fake_env price =
     \<lparr>web3Provider = None,
      requestAccounts = Inr [toLowerCase alice],
      getBalance = (\<lambda>a. Inr 5000000000000000000),
      getTransactionCount = (\<lambda>a. Inr (number_of_int 7)),
      now = number_of_int 1700006400000,
      dateValue = (\<lambda>s. if s = ''2023-11-25'' then number_of_int 1700870400000
                        else if s = ''2023-11-15'' then number_of_int 1700006400000
                        else NaN),
      toLocaleDateString = (\<lambda>t. ''11/25/2023''),
      sendCreateLoanRequest = (\<lambda>a d r ov. None),
      sendRepayLoan = (\<lambda>i ov. None),
      waitTx = None,
      getAllActiveLoans = Inr ([1], [loan_of_alice], [2], [request_of_bob]),
      readActiveLoan = (\<lambda>i. Inr loan_of_alice),
      fetchEthPrice = Inr (string_to_number price)\<rparr>"

text \<open>The rows the loan table shows for these two records.\<close>

definition row_of_alice :: loan_row where
  "row_of_alice =
     \<lparr>loanId = number_of_int 1, borrower = alice, loanAmount = ''3.0'',
      endTime = Some ''11/25/2023'', duration = None, rate = number_of_int 5,
      stake = ''6.0'', state = ''ACTIVE''\<rparr>"

definition row_of_bob :: loan_row where
  "row_of_bob =
     \<lparr>loanId = number_of_int 2, borrower = bob, loanAmount = ''1.0'',
      endTime = None, duration = Some (number_of_int 10), rate = number_of_int 5,
      stake = ''2.0'', state = ''PENDING''\<rparr>"

text \<open>A filled form whose due date is the day the clock stands at, and one ten days on.\<close>

definition past_form :: form_data where
  "past_form =
     \<lparr>amount = ''1.0'', date = ''2023-11-15'', collateral = ''2.0'', interestRate = ''5''\<rparr>"

definition future_form :: form_data where
  "future_form =
     \<lparr>amount = ''1.0'', date = ''2023-11-25'', collateral = ''2.0'', interestRate = ''5''\<rparr>"


text \<open>The same collaborators, with a request whose duration needs 54 bits.\<close>

definition overflow_env :: env where
  "overflow_env =
     fake_env ''2000''
       \<lparr>getAllActiveLoans :=
          Inr ([1], [loan_of_alice], [2], [request_of_bob\<lparr>rq_duration := 2 ^ 53\<rparr>])\<rparr>"

text \<open>The view once the wallet is connected as the first account and the contract bound.\<close>

definition bound_view :: view_state where
  "bound_view =
     initial_state\<lparr>account := Some (toLowerCase alice), balance := ''5.0'',
                   contract := Some (Contract contractAddress)\<rparr>"

section \<open>Properties\<close>

lemmas monad_defs = ret_def throw_def bind_def seq_def try_catch_def emit_def modify_def
  lift_def lift_unit_def call_def call_unit_def

subsection \<open>The Number model\<close>

text \<open>
  \<open>bits\<close> is the bit length, and \<open>round_half_even\<close> returns a nearest integer to the
  quotient: the multiple \<open>m \<times> b\<close> it selects is at most \<open>b / 2\<close> away from \<open>a\<close>.
\<close>

lemma bits_nonneg: "0 \<le> bits n"
  by (induction n rule: bits.induct) (simp add: bits.simps)

lemma bits_bounds: "0 < n \<Longrightarrow> 2 ^ nat (bits n - 1) \<le> n \<and> n < 2 ^ nat (bits n)"
proof (induction n rule: bits.induct)
  case (1 n)
  show ?case
  proof (cases "n = 1")
    case True
    then show ?thesis
      by (simp add: bits.simps [of 1] bits.simps [of 0])
  next
    case False
    with "1.prems" have h: "0 < n div 2" "\<not> n \<le> 0"
      by simp_all
    then have ih: "2 ^ nat (bits (n div 2) - 1) \<le> n div 2" "n div 2 < 2 ^ nat (bits (n div 2))"
      using "1.IH" by simp_all
    have b: "bits n = 1 + bits (n div 2)"
      using h by (simp add: bits.simps [of n])
    have p: "0 < bits (n div 2)"
      using h bits_nonneg [of "n div 2 div 2"] by (simp add: bits.simps [of "n div 2"])
    have "nat (bits (n div 2)) = Suc (nat (bits (n div 2) - 1))"
      using p by simp
    then have "(2::int) ^ nat (bits (n div 2)) = 2 * 2 ^ nat (bits (n div 2) - 1)"
      by simp
    then have lo: "2 ^ nat (bits (n div 2)) \<le> n"
      using ih(1) by linarith
    have "nat (1 + bits (n div 2)) = Suc (nat (bits (n div 2)))"
      using p by simp
    then have "(2::int) ^ nat (1 + bits (n div 2)) = 2 * 2 ^ nat (bits (n div 2))"
      by simp
    then have hi: "n < 2 ^ nat (1 + bits (n div 2))"
      using ih(2) by linarith
    show ?thesis
      using lo hi by (simp add: b)
  qed
qed

lemma round_half_even_error:
  assumes "0 < b" and "0 \<le> a"
  shows "2 * \<bar>a - round_half_even a b * b\<bar> \<le> b"
proof -
  define t where "t = a div b * b"
  define r where "r = a mod b"
  have a: "a = t + r"
    by (simp add: t_def r_def)
  have r: "0 \<le> r" "r < b"
    using assms(1) by (simp_all add: r_def)
  have "round_half_even a b * b = (if 2 * r < b then t
          else if b < 2 * r then t + b
          else if even (a div b) then t else t + b)"
    by (simp add: round_half_even_def Let_def t_def r_def algebra_simps)
  then show ?thesis
    using r a by (simp split: if_splits)
qed

lemma pow2_pos: "0 < pow2 k"
  by (simp add: pow2_def)

lemma pow2_add: "0 \<le> a \<Longrightarrow> 0 \<le> b \<Longrightarrow> pow2 (a + b) = pow2 a * pow2 b"
  by (simp add: pow2_def nat_add_distrib power_add)

lemma pow2_nonpos: "k \<le> 0 \<Longrightarrow> pow2 k = 1"
  by (simp add: pow2_def)

lemma pow2_mono: "a \<le> b \<Longrightarrow> pow2 a \<le> pow2 b"
  by (simp add: pow2_def power_increasing)

lemma pow2_shift:
  "\<exists>c > 0. pow2 (- u) = c * pow2 (- (u + int j)) \<and> 2 ^ j * pow2 u = c * pow2 (u + int j)"
proof -
  consider "0 \<le> u" | "u < 0" "0 \<le> u + int j" | "u + int j < 0" by linarith
  then show ?thesis
  proof cases
    case 1
    then have "pow2 (u + int j) = pow2 u * 2 ^ j"
      by (simp add: pow2_def nat_add_distrib power_add)
    then show ?thesis
      using 1 by (intro exI [of _ 1]) (simp add: pow2_nonpos)
  next
    case 2
    then have "nat (- u) + nat (u + int j) = j"
      by simp
    then have "(2::int) ^ j = 2 ^ nat (- u) * 2 ^ nat (u + int j)"
      by (simp add: power_add [symmetric])
    then show ?thesis
      using 2 by (intro exI [of _ "pow2 (- u)"]) (simp add: pow2_nonpos pow2_pos pow2_def)
  next
    case 3
    then have "nat (- u) = j + nat (- u - int j)"
      by simp
    then have "(2::int) ^ nat (- u) = 2 ^ j * 2 ^ nat (- u - int j)"
      by (simp add: power_add [symmetric])
    then show ?thesis
      using 3 by (intro exI [of _ "2 ^ j"]) (simp add: pow2_nonpos pow2_def)
  qed
qed

lemma below_shift:
  "(n * pow2 (- (u + int j)) < d * pow2 (u + int j)) = (n * pow2 (- u) < 2 ^ j * (d * pow2 u))"
proof -
  obtain c where c: "0 < c" "pow2 (- u) = c * pow2 (- (u + int j))"
    "2 ^ j * pow2 u = c * pow2 (u + int j)"
    using pow2_shift [of u j] by blast
  have "n * pow2 (- u) = c * (n * pow2 (- (u + int j)))"
    using c(2) by simp
  moreover have "2 ^ j * (d * pow2 u) = c * (d * pow2 (u + int j))"
    using c(3) by (simp add: mult.left_commute mult.assoc)
  ultimately show ?thesis
    using c(1) by (simp only: mult_less_cancel_left_pos)
qed

lemma above_shift:
  "(d * pow2 (u + int j) \<le> n * pow2 (- (u + int j))) = (2 ^ j * (d * pow2 u) \<le> n * pow2 (- u))"
  using below_shift [of n u j d] by linarith

lemma below_mono:
  assumes "n * pow2 (- k) < d * pow2 k" and "k \<le> k'" and "0 \<le> n" and "0 \<le> d"
  shows "n * pow2 (- k') < d * pow2 k'"
proof -
  have "n * pow2 (- k') \<le> n * pow2 (- k)"
    using assms(2,3) by (intro mult_left_mono pow2_mono) simp_all
  moreover have "d * pow2 k \<le> d * pow2 k'"
    using assms(2,4) by (intro mult_left_mono pow2_mono) simp_all
  ultimately show ?thesis
    using assms(1) by linarith
qed


lemma bits_pos: "0 < n \<Longrightarrow> 0 < bits n"
  using bits_nonneg [of "n div 2"] by (simp add: bits.simps [of n])

lemma bits_pow2: "0 < n \<Longrightarrow> pow2 (bits n - 1) \<le> n \<and> n < pow2 (bits n)"
  using bits_bounds [of n] by (simp add: pow2_def)

lemma exponent_estimate:
  assumes "0 < n" and "0 < d"
  defines "p \<equiv> bits n - bits d"
  shows "d * pow2 (p - 1) \<le> n * pow2 (- (p - 1))"
    and "n * pow2 (- (p + 1)) < d * pow2 (p + 1)"
proof -
  note bn = bits_pow2 [OF assms(1)] bits_pos [OF assms(1)]
  note bd = bits_pow2 [OF assms(2)] bits_pos [OF assms(2)]
  show "d * pow2 (p - 1) \<le> n * pow2 (- (p - 1))"
  proof (cases "0 \<le> p - 1")
    case True
    have "pow2 (bits d + (p - 1)) = pow2 (bits d) * pow2 (p - 1)"
      using True bd(2) by (intro pow2_add) simp_all
    then have "pow2 (bits d) * pow2 (p - 1) = pow2 (bits n - 1)"
      by (simp add: p_def)
    moreover have "d * pow2 (p - 1) \<le> pow2 (bits d) * pow2 (p - 1)"
      using bd(1) pow2_pos [of "p - 1"] by (intro mult_right_mono) simp_all
    ultimately show ?thesis
      using True bn(1) by (simp add: pow2_nonpos)
  next
    case False
    have "pow2 (bits n - 1 + (- (p - 1))) = pow2 (bits n - 1) * pow2 (- (p - 1))"
      using False bn(2) by (intro pow2_add) simp_all
    then have "pow2 (bits n - 1) * pow2 (- (p - 1)) = pow2 (bits d)"
      by (simp add: p_def)
    moreover have "pow2 (bits n - 1) * pow2 (- (p - 1)) \<le> n * pow2 (- (p - 1))"
      using bn(1) pow2_pos [of "- (p - 1)"] by (intro mult_right_mono) simp_all
    ultimately show ?thesis
      using False bd(1) by (simp add: pow2_nonpos)
  qed
  show "n * pow2 (- (p + 1)) < d * pow2 (p + 1)"
  proof (cases "0 \<le> p + 1")
    case True
    have "pow2 (bits d - 1 + (p + 1)) = pow2 (bits d - 1) * pow2 (p + 1)"
      using True bd(2) by (intro pow2_add) simp_all
    then have "pow2 (bits d - 1) * pow2 (p + 1) = pow2 (bits n)"
      by (simp add: p_def)
    moreover have "pow2 (bits d - 1) * pow2 (p + 1) \<le> d * pow2 (p + 1)"
      using bd(1) pow2_pos [of "p + 1"] by (intro mult_right_mono) simp_all
    ultimately show ?thesis
      using True bn(1) by (simp add: pow2_nonpos)
  next
    case False
    have "pow2 (bits n + (- (p + 1))) = pow2 (bits n) * pow2 (- (p + 1))"
      using False bn(2) by (intro pow2_add) simp_all
    then have "pow2 (bits n) * pow2 (- (p + 1)) = pow2 (bits d - 1)"
      by (simp add: p_def)
    moreover have "n * pow2 (- (p + 1)) < pow2 (bits n) * pow2 (- (p + 1))"
      using bn(1) pow2_pos [of "- (p + 1)"] by (intro mult_strict_right_mono) simp_all
    ultimately show ?thesis
      using False bd(1) by (simp add: pow2_nonpos)
  qed
qed


lemma round_half_even_bounds:
  "a div b \<le> round_half_even a b \<and> round_half_even a b \<le> a div b + 1"
  by (simp add: round_half_even_def Let_def)

lemma div_bounds:
  fixes a b c :: int
  assumes "0 < b"
  shows "a < c * b \<Longrightarrow> a div b < c" and "c * b \<le> a \<Longrightarrow> c \<le> a div b"
proof -
  have a: "a = a div b * b + a mod b" and r: "0 \<le> a mod b" "a mod b < b"
    using assms by simp_all
  show "a div b < c" if "a < c * b"
  proof -
    have "a div b * b < c * b"
      using that a r(1) by linarith
    then show ?thesis
      using assms by (simp add: mult_less_cancel_right)
  qed
  show "c \<le> a div b" if "c * b \<le> a"
  proof -
    have "(a div b + 1) * b = a div b * b + b"
      by (simp add: algebra_simps)
    then have "c * b < (a div b + 1) * b"
      using that a r(2) by linarith
    then have "c < a div b + 1"
      using assms by (simp add: mult_less_cancel_right)
    then show ?thesis
      by simp
  qed
qed

lemma half_error:
  fixes x y d :: int
  assumes "2 * \<bar>2 * x - 2 * y\<bar> \<le> d" and "0 < d"
  shows "2 * \<bar>x - y\<bar> \<le> d"
proof (cases "y \<le> x")
  case True
  then show ?thesis
    using assms by simp
next
  case False
  then show ?thesis
    using assms by simp
qed

text \<open>
  \<open>round_to_double\<close> rounds the quotient \<open>n / d\<close> of two positive integers to a nearest
  double: when the result is finite its exponent lies in the range of binary64, its
  significand has at most 53 bits and exactly 53 unless the value is subnormal, and the
  value \<open>m \<times> 2 ^ u\<close> is at most half a unit in the last place away from \<open>n / d\<close>. The
  inequalities are stated on integers, with \<open>pow2 u\<close> on one side and \<open>pow2 (- u)\<close> on the
  other, as the definition computes them.
\<close>

lemma round_to_double_nearest:
  assumes "0 < n" and "0 < d" and "round_to_double neg n d = Fin s m u"
  shows "s = neg \<and> - 1074 \<le> u \<and> u \<le> 971 \<and> 0 \<le> m \<and> m < 2 ^ 53
       \<and> (- 1074 < u \<longrightarrow> 2 ^ 52 \<le> m)
       \<and> 2 * \<bar>n * pow2 (- u) - m * (d * pow2 u)\<bar> \<le> d * pow2 u"
proof -
  define p where "p = bits n - bits d"
  define e where "e = (if n * pow2 (- p) < d * pow2 p then p - 1 else p)"
  define v where "v = max (e - 52) (- 1074)"
  define a where "a = n * pow2 (- v)"
  define b where "b = d * pow2 v"
  define k where "k = round_half_even a b"
  have res: "(if 971 < (if k = 2 ^ 53 then v + 1 else v) then Inf neg
              else Fin neg (if k = 2 ^ 53 then 2 ^ 52 else k) (if k = 2 ^ 53 then v + 1 else v))
             = Fin s m u"
    using assms(1,3)
    unfolding round_to_double_def Let_def p_def [symmetric] e_def [symmetric]
      v_def [symmetric] a_def [symmetric] b_def [symmetric] k_def [symmetric]
    by simp
  have e_lo: "d * pow2 e \<le> n * pow2 (- e)"
    using exponent_estimate(1) [OF assms(1,2)] by (simp add: e_def p_def)
  have e_hi: "n * pow2 (- (e + 1)) < d * pow2 (e + 1)"
    using exponent_estimate(2) [OF assms(1,2)] by (simp add: e_def p_def)
  have b: "0 < b" and a: "0 \<le> a"
    using assms(1,2) pow2_pos [of v] pow2_pos [of "- v"] by (simp_all add: a_def b_def)
  have "n * pow2 (- (v + 53)) < d * pow2 (v + 53)"
    using below_mono [OF e_hi, of "v + 53"] assms(1,2) by (simp add: v_def)
  then have hi: "a < 2 ^ 53 * b"
    using below_shift [of n v 53 d] by (simp add: a_def b_def)
  have lo: "2 ^ 52 * b \<le> a" if "- 1074 < v"
  proof -
    from that have "e = v + 52"
      by (simp add: v_def max_def split: if_splits)
    then show ?thesis
      using e_lo above_shift [of d v 52 n] by (simp add: a_def b_def)
  qed
  have k_hi: "k \<le> 2 ^ 53"
    using div_bounds(1) [OF b hi] round_half_even_bounds [of a b] by (simp add: k_def)
  have k_lo: "2 ^ 52 \<le> k" if "- 1074 < v"
    using div_bounds(2) [OF b lo [OF that]] round_half_even_bounds [of a b] by (simp add: k_def)
  have k_nonneg: "0 \<le> k"
    using div_bounds(2) [OF b, of 0 a] a round_half_even_bounds [of a b] by (simp add: k_def)
  have err: "2 * \<bar>a - k * b\<bar> \<le> b"
    using round_half_even_error [OF b a] by (simp add: k_def)
  have v: "- 1074 \<le> v"
    by (simp add: v_def)
  show ?thesis
  proof (cases "k = 2 ^ 53")
    case False
    then have "s = neg" "m = k" "u = v" "v \<le> 971"
      using res by (simp_all split: if_splits)
    then show ?thesis
      using False k_hi k_lo k_nonneg err v by (simp add: a_def b_def)
  next
    case True
    then have r: "s = neg" "m = 2 ^ 52" "u = v + 1" "v + 1 \<le> 971"
      using res by (simp_all split: if_splits)
    have "2 * \<bar>n * pow2 (- (v + 1)) - 2 ^ 52 * (d * pow2 (v + 1))\<bar> \<le> d * pow2 (v + 1)"
    proof (cases "0 \<le> v")
      case True
      then have "pow2 (v + 1) = 2 * pow2 v" "pow2 (- (v + 1)) = 1" "pow2 (- v) = 1"
        by (simp_all add: pow2_def nat_add_distrib)
      then show ?thesis
        using err \<open>k = 2 ^ 53\<close> b by (simp add: a_def b_def)
    next
      case False
      then have "nat (- v) = Suc (nat (- (v + 1)))"
        by simp
      then have "pow2 (- v) = 2 * pow2 (- (v + 1))"
        by (simp add: pow2_def)
      then have "a = 2 * (n * pow2 (- (v + 1)))"
        by (simp add: a_def)
      moreover have "pow2 (v + 1) = 1" "pow2 v = 1"
        using False by (simp_all add: pow2_nonpos)
      ultimately have "2 * \<bar>2 * (n * pow2 (- (v + 1))) - 2 * (2 ^ 52 * d)\<bar> \<le> d" and "0 < d"
        using err \<open>k = 2 ^ 53\<close> b by (simp_all add: b_def)
      then have "2 * \<bar>n * pow2 (- (v + 1)) - 2 ^ 52 * d\<bar> \<le> d"
        by (rule half_error)
      then show ?thesis
        using \<open>pow2 (v + 1) = 1\<close> by simp
    qed
    then show ?thesis
      using r v by simp
  qed
qed

text \<open>
  The double nearest to 0.1, the quotient 1 / 3 and the product 0.1 \<times> 3 as JavaScript
  prints them, the switch of \<^verbatim>\<open>toString\<close> to exponent notation, the rounding of an
  integer beyond \<open>2 ^ 53\<close>, and the ether conversions on small inputs.
\<close>

lemma tenth: "string_to_number ''0.1'' = Fin False 7205759403792794 (- 56)"
  by code_simp

lemma third: "number_to_string (div_num (number_of_int 1) (number_of_int 3))
  = ''0.3333333333333333''"
  by code_simp

lemma three_tenths: "number_to_string (mul_num (string_to_number ''0.1'') (number_of_int 3))
  = ''0.30000000000000004''"
  by code_simp

lemma exponent_notation:
  "number_to_string (string_to_number ''123456789012345680000'') = ''123456789012345680000''"
  "number_to_string (string_to_number ''1000000000000000000000'') = ''1e+21''"
  "number_to_string (string_to_number ''0.000001'') = ''0.000001''"
  "number_to_string (string_to_number ''0.0000001'') = ''1e-7''"
  by code_simp+

lemma beyond_safe_integers:
  "number_to_string (number_of_int 9007199254740993) = ''9007199254740992''"
  by code_simp

lemma day_and_a_millisecond:
  "ceil_num (div_num (number_of_int 86400001) (number_of_int 86400000)) = number_of_int 2"
  by code_simp

lemma ether_strings:
  "formatEther 1 = ''0.000000000000000001''"
  "formatEther 1000000000000000000 = ''1.0''"
  "parseEther ''0.07'' = Inr 70000000000000000"
  "parseEther ''1e-7'' = Inl (Error (Some ''invalid decimal value''))"
  "parseEther ''0.0000000000000000001''
     = Inl (Error (Some ''fractional component exceeds decimals''))"
  "parseEther [] = Inl (Error (Some ''invalid decimal value''))"
  by code_simp+

subsection \<open>Rules for asynchronous functions\<close>













lemma stable_ret: "stable g (ret x)"
  by (simp add: stable_def ret_def)

lemma stable_throw: "stable g (throw e)"
  by (simp add: stable_def throw_def)

lemma stable_lift: "stable g (lift x)"
  by (cases x) (simp_all add: lift_def stable_ret stable_throw)

lemma stable_lift_unit: "stable g (lift_unit x)"
  by (cases x) (simp_all add: lift_unit_def stable_ret stable_throw)

lemma stable_emit: "(\<And>r. g (r\<lparr>effects := effects r @ [ev]\<rparr>) = g r) \<Longrightarrow> stable g (emit ev)"
  by (simp add: stable_def emit_def)

lemma stable_modify: "(\<And>r. g (r\<lparr>view := f (view r)\<rparr>) = g r) \<Longrightarrow> stable g (modify f)"
  by (simp add: stable_def modify_def)

lemma stable_bind:
  assumes "stable g m" and "\<And>x. stable g (f x)"
  shows "stable g (bind m f)"
  unfolding stable_def
proof
  fix r :: run
  obtain res r' where m: "m r = (res, r')"
    by (cases "m r")
  then have "g r' = g r"
    using assms(1) by (auto simp: stable_def dest: spec [of _ r])
  then show "g (snd (bind m f r)) = g r"
    using assms(2) m by (cases res) (simp_all add: bind_def stable_def)
qed

lemma stable_seq: "stable g m \<Longrightarrow> stable g n \<Longrightarrow> stable g (seq m n)"
  by (simp add: seq_def stable_bind)

lemma stable_try_catch:
  assumes "stable g m" and "\<And>e. stable g (h e)"
  shows "stable g (try_catch m h)"
  unfolding stable_def
proof
  fix r :: run
  obtain res r' where m: "m r = (res, r')"
    by (cases "m r")
  then have "g r' = g r"
    using assms(1) by (auto simp: stable_def dest: spec [of _ r])
  then show "g (snd (try_catch m h r)) = g r"
    using assms(2) m by (cases res) (simp_all add: try_catch_def stable_def)
qed

lemma stable_call:
  "(\<And>r. g (r\<lparr>effects := effects r @ [ev]\<rparr>) = g r) \<Longrightarrow> stable g (call ev x)"
  by (simp add: call_def stable_seq stable_emit stable_lift)

lemma stable_call_unit:
  "(\<And>r. g (r\<lparr>effects := effects r @ [ev]\<rparr>) = g r) \<Longrightarrow> stable g (call_unit ev x)"
  by (simp add: call_unit_def stable_seq stable_emit stable_lift_unit)

lemmas stable_intros = stable_ret stable_throw stable_lift stable_lift_unit stable_emit
  stable_modify stable_bind stable_seq stable_try_catch stable_call stable_call_unit

lemma transactions_simps:
  "transactions (r\<lparr>view := v\<rparr>) = transactions r"
  "\<not> is_transaction ev \<Longrightarrow> transactions (r\<lparr>effects := effects r @ [ev]\<rparr>) = transactions r"
  "is_transaction ev \<Longrightarrow> transactions (r\<lparr>effects := effects r @ [ev]\<rparr>) = transactions r @ [ev]"
  by (simp_all add: transactions_def)

lemma quiet_updateBalance: "stable transactions (updateBalance env c)"
  unfolding updateBalance_def by (intro stable_intros) (simp_all add: transactions_simps)

lemma quiet_loadActiveLoans: "stable transactions (loadActiveLoans env c)"
  unfolding loadActiveLoans_def loadActiveLoans_try_def
  by (auto intro!: stable_intros simp: split_def transactions_simps)

subsection \<open>The null guard\<close>

text \<open>
  C7. While the contract handle is \<^verbatim>\<open>null\<close>, \<open>createLoanRequest\<close>, \<open>loadActiveLoans\<close> and
  \<open>repayLoan\<close> return at once and normally: no state cell is written, and no call to the
  wallet, the contract or the price service is issued. The one effect is the
  \<^verbatim>\<open>preventDefault\<close> of the submit event, which precedes the guard.
\<close>

theorem null_contract_noop:
  assumes "contract c = None"
  shows "createLoanRequest env c r = (Inr (), r\<lparr>effects := effects r @ [PreventDefault]\<rparr>)
       \<and> loadActiveLoans env c r = (Inr (), r)
       \<and> repayLoan env c i r = (Inr (), r)"
  using assms
  by (simp add: createLoanRequest_def loadActiveLoans_def repayLoan_def monad_defs)

theorem null_contract_noop_witness:
  "contract initial_state = None
   \<and> createLoanRequest (fake_env ''2000'') initial_state (start initial_state)
       = (Inr (), \<lparr>view = initial_state, effects = [PreventDefault]\<rparr>)
   \<and> loadActiveLoans (fake_env ''2000'') initial_state (start initial_state)
       = (Inr (), start initial_state)
   \<and> repayLoan (fake_env ''2000'') initial_state (number_of_int 1) (start initial_state)
       = (Inr (), start initial_state)"
  using null_contract_noop
          [of initial_state "fake_env ''2000''" "start initial_state" "number_of_int 1"]
  by (simp add: initial_state_def start_def)

subsection \<open>Account changes\<close>

text \<open>
  C10. The \<^verbatim>\<open>accountsChanged\<close> listener writes the connected address and, when the
  balance query answers, the balance; every other state cell, the loan list among them,
  keeps its value, and the only call issued is the balance query: the loan list is not
  fetched again, so it still shows the rows of the previous account.
\<close>

theorem accountsChanged_frame:
  "view (snd (accountsChanged env accounts r))
     = (view r)\<lparr>account := first_account accounts,
                 balance := (case getBalance env (first_account accounts) of
                               Inl e \<Rightarrow> balance (view r)
                             | Inr newBalance \<Rightarrow> formatEther newBalance)\<rparr>
   \<and> activeLoans (view (snd (accountsChanged env accounts r))) = activeLoans (view r)
   \<and> effects (snd (accountsChanged env accounts r))
     = effects r @ [GetBalance (first_account accounts)]"
  by (simp add: accountsChanged_def monad_defs split: sum.splits)

theorem accountsChanged_frame_witness:
  "activeLoans (view (snd (accountsChanged (fake_env ''2000'') [toLowerCase bob]
      (start (bound_view\<lparr>activeLoans := [row_of_alice]\<rparr>))))) = [row_of_alice]
   \<and> account (view (snd (accountsChanged (fake_env ''2000'') [toLowerCase bob]
      (start (bound_view\<lparr>activeLoans := [row_of_alice]\<rparr>))))) = Some (toLowerCase bob)
   \<and> effects (snd (accountsChanged (fake_env ''2000'') [toLowerCase bob]
      (start (bound_view\<lparr>activeLoans := [row_of_alice]\<rparr>))))
     = [GetBalance (Some (toLowerCase bob))]"
  using accountsChanged_frame
          [of "fake_env ''2000''" "[toLowerCase bob]"
              "start (bound_view\<lparr>activeLoans := [row_of_alice]\<rparr>)"]
  by (simp add: start_def first_account_def)

subsection \<open>Repayment without a price\<close>

text \<open>
  C5. With the contract bound, when the price fetch fails, so that \<open>getEthPrice\<close> can
  only return \<^verbatim>\<open>null\<close>, \<open>repayLoan\<close> returns normally with a danger notification shown, no
  transaction sent, and the loan list and the balance as they were. When the loan has
  been read, so that the fetch is made, the notification is "Error fetching ETH price"
  and the calls issued are the loan read and the price fetch.
\<close>

theorem price_failure_aborts:
  assumes "contract c = Some k"
    and "fetchEthPrice env = Inl e"
  shows "fst (repayLoan env c i r) = Inr ()
       \<and> filter is_transaction (effects (snd (repayLoan env c i r)))
           = filter is_transaction (effects r)
       \<and> activeLoans (view (snd (repayLoan env c i r))) = activeLoans (view r)
       \<and> balance (view (snd (repayLoan env c i r))) = balance (view r)
       \<and> toastVariant (view (snd (repayLoan env c i r))) = ''danger''
       \<and> showToast (view (snd (repayLoan env c i r)))
       \<and> (readActiveLoan env i = Inr loan \<longrightarrow>
            repayLoan env c i r =
              (Inr (), r\<lparr>view := showToastMessage ''Error fetching ETH price'' ''danger'' (view r),
                         effects := effects r @ [ReadActiveLoan i, FetchEthPrice,
                                       ConsoleError ''Error fetching ETH price:'']\<rparr>))"
  using assms
  by (auto simp add: repayLoan_def repayLoan_try_def getEthPrice_def falsy_price_def monad_defs
        showToastMessage_def split: sum.splits)

theorem price_failure_aborts_witness:
  "contract bound_view = Some (Contract contractAddress)
   \<and> fetchEthPrice (fake_env ''2000''\<lparr>fetchEthPrice := Inl (Error None)\<rparr>) = Inl (Error None)
   \<and> readActiveLoan (fake_env ''2000''\<lparr>fetchEthPrice := Inl (Error None)\<rparr>) (number_of_int 1)
       = Inr loan_of_alice
   \<and> repayLoan (fake_env ''2000''\<lparr>fetchEthPrice := Inl (Error None)\<rparr>) bound_view
         (number_of_int 1) (start bound_view)
       = (Inr (), \<lparr>view = showToastMessage ''Error fetching ETH price'' ''danger'' bound_view,
                    effects = [ReadActiveLoan (number_of_int 1), FetchEthPrice,
                               ConsoleError ''Error fetching ETH price:'']\<rparr>)"
  using price_failure_aborts
          [where c = bound_view and k = "Contract contractAddress"
             and env = "fake_env ''2000''\<lparr>fetchEthPrice := Inl (Error None)\<rparr>"
             and e = "Error None" and i = "number_of_int 1" and loan = loan_of_alice
             and r = "start bound_view"]
  by (simp add: bound_view_def fake_env_def start_def)

subsection \<open>Submitting a due date that is not in the future\<close>

lemma past_form_duration:
  "less_eq_num (durationInDays (fake_env ''2000'') past_form) (number_of_int 0)"
  by code_simp

text \<open>
  C3, as stated, fails where the guard on the contract handle comes first: with the
  handle \<^verbatim>\<open>null\<close>, a submission whose due date is today shows no notification at all.
\<close>

theorem past_date_without_contract_counterexample:
  "less_eq_num
     (durationInDays (fake_env ''2000'') (formData (initial_state\<lparr>formData := past_form\<rparr>)))
     (number_of_int 0)
   \<and> \<not> showToast (view (snd (createLoanRequest (fake_env ''2000'')
           (initial_state\<lparr>formData := past_form\<rparr>)
           (start (initial_state\<lparr>formData := past_form\<rparr>)))))"
  by code_simp

text \<open>
  C3, amended. When the computed duration in whole days is \<open>\<le> 0\<close>, \<open>createLoanRequest\<close>
  returns normally without any call to the wallet, the contract or the price service (no
  nonce fetch, no transaction). When moreover the contract handle is set and the amount
  and the collateral parse as ether amounts, it shows the warning notification
  "Repayment date must be in the future" and writes nothing else.
\<close>

theorem past_date_blocks_submission:
  assumes "less_eq_num (durationInDays env (formData c)) (number_of_int 0)"
  shows "fst (createLoanRequest env c r) = Inr ()
       \<and> filter is_network_call (effects (snd (createLoanRequest env c r)))
           = filter is_network_call (effects r)
       \<and> (contract c = Some k \<and> parseEther (amount (formData c)) = Inr a
            \<and> parseEther (collateral (formData c)) = Inr b \<longrightarrow>
          createLoanRequest env c r
            = (Inr (), r\<lparr>view := showToastMessage ''Repayment date must be in the future''
                                   ''warning'' (view r),
                         effects := effects r @ [PreventDefault]\<rparr>))"
  using assms
  by (auto simp add: createLoanRequest_def createLoanRequest_try_def monad_defs Let_def
        split: sum.splits)

theorem past_date_blocks_submission_witness:
  "less_eq_num
     (durationInDays (fake_env ''2000'') (formData (bound_view\<lparr>formData := past_form\<rparr>)))
     (number_of_int 0)
   \<and> createLoanRequest (fake_env ''2000'') (bound_view\<lparr>formData := past_form\<rparr>)
        (start (bound_view\<lparr>formData := past_form\<rparr>))
       = (Inr (), \<lparr>view = showToastMessage ''Repayment date must be in the future'' ''warning''
                            (bound_view\<lparr>formData := past_form\<rparr>),
                    effects = [PreventDefault]\<rparr>)"
proof -
  have d: "less_eq_num (durationInDays (fake_env ''2000'')
             (formData (bound_view\<lparr>formData := past_form\<rparr>))) (number_of_int 0)"
    using past_form_duration by simp
  have a: "parseEther (amount (formData (bound_view\<lparr>formData := past_form\<rparr>)))
             = Inr (10 ^ 18)"
    by code_simp
  have b: "parseEther (collateral (formData (bound_view\<lparr>formData := past_form\<rparr>)))
             = Inr (2 * 10 ^ 18)"
    by code_simp
  have k: "contract (bound_view\<lparr>formData := past_form\<rparr>) = Some (Contract contractAddress)"
    by (simp add: bound_view_def)
  show ?thesis
    using past_date_blocks_submission [OF d, where k = "Contract contractAddress"
            and a = "10 ^ 18" and b = "2 * 10 ^ 18"
            and r = "start (bound_view\<lparr>formData := past_form\<rparr>)"] d a b k
    by (simp add: start_def)
qed

subsection \<open>Notifications\<close>
















subsection \<open>Errors at the boundary\<close>





subsection \<open>The loan list\<close>

lemma traverse_map:
  "(\<And>x. x \<in> set xs \<Longrightarrow> f x = Inr (g x)) \<Longrightarrow> traverse f xs = Inr (map g xs)"
  by (induction xs) simp_all

lemma map_with_index:
  assumes "length ys = length xs"
  shows "map (\<lambda>p. h (fst p, ys ! snd p)) (with_index xs) = map h (zip xs ys)"
  using assms
  by (intro nth_equalityI) (simp_all add: with_index_def)

lemma toNumber_safe: "safe_integer v \<Longrightarrow> toNumber v = Inr (number_of_int v)"
  by (simp add: toNumber_def safe_integer_def)

lemma active_rows:
  assumes "length loans = length loanIds"
    and "\<forall>v \<in> set loanIds. safe_integer v"
    and "\<forall>l \<in> set loans. safe_integer (ln_endTime l) \<and> safe_integer (ln_interestRate l)"
  shows "traverse (active_row env loans) (with_index loanIds)
           = Inr (map (active_view env) (zip loanIds loans))"
proof -
  have "active_row env loans p = Inr (active_view env (fst p, loans ! snd p))"
    if "p \<in> set (with_index loanIds)" for p
  proof -
    from that have i: "snd p < length loanIds" and v: "fst p \<in> set loanIds"
      by (auto simp: with_index_def set_zip)
    then have "loans ! snd p \<in> set loans"
      using assms(1) by simp
    then show ?thesis
      using i v assms
      by (simp add: active_row_def active_view_def and_then_def element_def toNumber_safe)
  qed
  then have "traverse (active_row env loans) (with_index loanIds)
               = Inr (map (\<lambda>p. active_view env (fst p, loans ! snd p)) (with_index loanIds))"
    by (rule traverse_map)
  then show ?thesis
    using map_with_index [OF assms(1), of "active_view env"] by simp
qed

lemma request_rows:
  assumes "length requests = length requestIds"
    and "\<forall>v \<in> set requestIds. safe_integer v"
    and "\<forall>q \<in> set requests. safe_integer (rq_duration q) \<and> safe_integer (rq_interestRate q)"
  shows "traverse (request_row requests) (with_index requestIds)
           = Inr (map request_view (zip requestIds requests))"
proof -
  have "request_row requests p = Inr (request_view (fst p, requests ! snd p))"
    if "p \<in> set (with_index requestIds)" for p
  proof -
    from that have i: "snd p < length requestIds" and v: "fst p \<in> set requestIds"
      by (auto simp: with_index_def set_zip)
    then have "requests ! snd p \<in> set requests"
      using assms(1) by simp
    then show ?thesis
      using i v assms
      by (simp add: request_row_def request_view_def and_then_def element_def toNumber_safe)
  qed
  then have "traverse (request_row requests) (with_index requestIds)
               = Inr (map (\<lambda>p. request_view (fst p, requests ! snd p)) (with_index requestIds))"
    by (rule traverse_map)
  then show ?thesis
    using map_with_index [OF assms(1), of request_view] by simp
qed

text \<open>
  C4, as stated, fails on a result set with a number beyond the safe integers. The
  rows are built for every record before the filter runs, so one request of another
  borrower with a duration of \<open>2 ^ 53\<close> days makes \<^verbatim>\<open>toNumber\<close> throw: the list is not
  replaced (it stays empty although the connected account has an active loan) and the
  error notification is shown.
\<close>

theorem loadActiveLoans_overflow_counterexample:
  "same_address (ln_borrower loan_of_alice) (toLowerCase alice)
   \<and> account bound_view = Some (toLowerCase alice)
   \<and> displayed_rows overflow_env (toLowerCase alice)
        [1] [loan_of_alice] [2] [request_of_bob\<lparr>rq_duration := 2 ^ 53\<rparr>] = [row_of_alice]
   \<and> activeLoans (view (snd (loadActiveLoans overflow_env bound_view (start bound_view)))) = []
   \<and> toastMessage (view (snd (loadActiveLoans overflow_env bound_view (start bound_view))))
       = ''Error loading loans''"
  by code_simp

text \<open>
  C4, amended. With the contract bound and an account connected, when the contract read
  returns parallel arrays (as many records as ids) in which every id, end time, duration
  and interest rate is a safe integer, \<open>loadActiveLoans\<close> replaces the displayed list,
  whatever it was, by exactly the rows whose borrower equals the connected address
  without regard to case: the active rows, then the request rows, each in source order,
  tagged ACTIVE and PENDING. Nothing else is written and the read is the only call.
\<close>

theorem loadActiveLoans_displays_own_rows:
  assumes "contract c = Some k" and "account c = Some a" and "a \<noteq> []"
    and "getAllActiveLoans env = Inr (loanIds, loans, requestIds, requests)"
    and "length loans = length loanIds" and "length requests = length requestIds"
    and "\<forall>v \<in> set loanIds. safe_integer v"
    and "\<forall>l \<in> set loans. safe_integer (ln_endTime l) \<and> safe_integer (ln_interestRate l)"
    and "\<forall>v \<in> set requestIds. safe_integer v"
    and "\<forall>q \<in> set requests. safe_integer (rq_duration q) \<and> safe_integer (rq_interestRate q)"
  shows "loadActiveLoans env c r =
           (Inr (), r\<lparr>view := (view r)\<lparr>activeLoans :=
                                displayed_rows env a loanIds loans requestIds requests\<rparr>,
                      effects := effects r @ [GetAllActiveLoans]\<rparr>)"
  using assms(1-4) active_rows [OF assms(5,7,8), of env] request_rows [OF assms(6,9,10)]
  by (simp add: loadActiveLoans_def loadActiveLoans_try_def monad_defs falsy_string_def
        displayed_rows_def same_address_def)

lemma fake_rows:
  "displayed_rows (fake_env ''2000'') (toLowerCase alice)
     [1] [loan_of_alice] [2] [request_of_bob] = [row_of_alice]"
  by code_simp

theorem loadActiveLoans_displays_own_rows_witness:
  "loadActiveLoans (fake_env ''2000'') bound_view
      (start (bound_view\<lparr>activeLoans := [row_of_bob]\<rparr>))
     = (Inr (), \<lparr>view = bound_view\<lparr>activeLoans := [row_of_alice]\<rparr>,
                  effects = [GetAllActiveLoans]\<rparr>)"
proof -
  have s: "safe_integer 1" "safe_integer 2" "safe_integer 5" "safe_integer 10"
    "safe_integer 1700870400"
    by (simp_all add: safe_integer_def)
  show ?thesis
    using loadActiveLoans_displays_own_rows
            [where c = bound_view and k = "Contract contractAddress" and a = "toLowerCase alice"
               and env = "fake_env ''2000''" and loanIds = "[1]" and loans = "[loan_of_alice]"
               and requestIds = "[2]" and requests = "[request_of_bob]"
               and r = "start (bound_view\<lparr>activeLoans := [row_of_bob]\<rparr>)"]
          fake_rows s
    by (simp add: bound_view_def fake_env_def start_def loan_of_alice_def request_of_bob_def
          toLowerCase_def alice_def)
qed


subsection \<open>The interest-rate field\<close>

text \<open>The comparisons that \<open>handleInputChange\<close> makes are the exact ones.\<close>

lemma seven: "number_of_int 7 = Fin False 7881299347898368 (- 50)"
  by code_simp

lemma zero: "number_of_int 0 = Fin False 0 (- 1074)"
  by code_simp

lemma signed_False: "signed False m = m"
  by (simp add: signed_def)

lemma pow2_50: "pow2 50 = 1125899906842624"
  by (simp add: pow2_def)

lemma less_seven: "less_num (number_of_int 7) x = exceeds x 7"
proof (cases x)
  case (Fin s m u)
  have "(7881299347898368 * pow2 (- 50 - u) < signed s m * pow2 (u + 50))
          = (7 * pow2 (- u) < signed s m * pow2 u)"
  proof -
    consider "0 \<le> u" | "- 50 \<le> u" "u < 0" | "u < - 50" by linarith
    then show ?thesis
    proof cases
      case 1
      then have "pow2 (u + 50) = pow2 u * pow2 50"
        by (simp add: pow2_add)
      then show ?thesis
        using 1 by (simp add: pow2_nonpos pow2_50 mult.commute)
    next
      case 2
      then have "pow2 (- u + (u + 50)) = pow2 (- u) * pow2 (u + 50)"
        by (intro pow2_add) simp_all
      then have e: "1125899906842624 = pow2 (- u) * pow2 (u + 50)"
        by (simp add: pow2_50)
      have "(7 * (pow2 (- u) * pow2 (u + 50)) < signed s m * pow2 (u + 50))
              = (7 * pow2 (- u) < signed s m)"
        using pow2_pos [of "u + 50"] by (simp add: mult.assoc [symmetric])
      then show ?thesis
        using 2 e by (simp add: pow2_nonpos)
    next
      case 3
      then have "pow2 (50 + (- 50 - u)) = pow2 50 * pow2 (- 50 - u)"
        by (intro pow2_add) simp_all
      then have "pow2 (- u) = 1125899906842624 * pow2 (- 50 - u)"
        by (simp add: pow2_50)
      then show ?thesis
        using 3 by (simp add: pow2_nonpos)
    qed
  qed
  then show ?thesis
    using Fin by (simp add: seven exceeds_def signed_False)
qed (simp_all add: seven exceeds_def)

lemma less_zero: "less_num x (number_of_int 0) = falls_below x 0"
proof (cases x)
  case (Fin s m u)
  have "(signed s m * pow2 (u + 1074) < 0) = (signed s m * pow2 u < 0)"
    using pow2_pos [of "u + 1074"] pow2_pos [of u]
    by (simp add: mult_less_0_iff)
  then show ?thesis
    using Fin by (simp add: zero falls_below_def signed_False)
qed (simp_all add: zero falls_below_def)

text \<open>
  C2. On a keystroke in the interest-rate field, with \<open>rate\<close> the Number that
  \<^verbatim>\<open>parseFloat\<close> reads from the new content: when \<open>rate\<close> is outside \<open>[0, 7]\<close> the form
  keeps its content and a warning notification is shown, nothing else changing;
  otherwise the new content is stored in the field, nothing else changing. A content
  that is no number (NaN, as for the emptied field) is not outside the range and is
  stored.
\<close>

theorem interest_rate_validation:
  "(outside_0_7 (parseFloat v) \<longrightarrow>
      formData (handleInputChange ''interestRate'' v s) = formData s
      \<and> toastVariant (handleInputChange ''interestRate'' v s) = ''warning''
      \<and> showToast (handleInputChange ''interestRate'' v s)
      \<and> handleInputChange ''interestRate'' v s
          = showToastMessage (toastMessage (handleInputChange ''interestRate'' v s))
              ''warning'' s)
   \<and> (\<not> outside_0_7 (parseFloat v) \<longrightarrow>
      handleInputChange ''interestRate'' v s
        = s\<lparr>formData := (formData s)\<lparr>interestRate := v\<rparr>\<rparr>)"
  by (auto simp add: handleInputChange_def Let_def less_seven less_zero outside_0_7_def
        showToastMessage_def set_field_def)


theorem interest_rate_validation_witness:
  "outside_0_7 (parseFloat ''7.5'')
   \<and> handleInputChange ''interestRate'' ''7.5'' initial_state
       = showToastMessage ''Interest rate cannot exceed 7%'' ''warning'' initial_state
   \<and> outside_0_7 (parseFloat ''-1'')
   \<and> formData (handleInputChange ''interestRate'' ''-1'' initial_state) = empty_form
   \<and> toastVariant (handleInputChange ''interestRate'' ''-1'' initial_state) = ''warning''
   \<and> \<not> outside_0_7 (parseFloat ''7'')
   \<and> handleInputChange ''interestRate'' ''7'' initial_state
       = initial_state\<lparr>formData := empty_form\<lparr>interestRate := ''7''\<rparr>\<rparr>
   \<and> \<not> outside_0_7 (parseFloat [])
   \<and> handleInputChange ''interestRate'' [] initial_state
       = initial_state\<lparr>formData := empty_form\<lparr>interestRate := []\<rparr>\<rparr>"
proof -
  have o: "outside_0_7 (parseFloat ''7.5'')" "outside_0_7 (parseFloat ''-1'')"
    "\<not> outside_0_7 (parseFloat ''7'')" "\<not> outside_0_7 (parseFloat [])"
    by code_simp+
  have m: "toastMessage (handleInputChange ''interestRate'' ''7.5'' initial_state)
             = ''Interest rate cannot exceed 7%''"
    by code_simp
  show ?thesis
    using o m
      interest_rate_validation [of "''7.5''" initial_state]
      interest_rate_validation [of "''-1''" initial_state]
      interest_rate_validation [of "''7''" initial_state]
      interest_rate_validation [of "[]" initial_state]
    by (simp add: initial_state_def)
qed


subsection \<open>Submitting a loan request\<close>

text \<open>What a nested \<open>loadActiveLoans\<close> contributes, and the values of the scenario.\<close>

lemma loadActiveLoans_returns: "fst (loadActiveLoans env c r) = Inr ()"
  by (simp add: loadActiveLoans_def monad_defs split: prod.splits sum.splits)

lemma loadActiveLoans_calls:
  assumes "contract c = Some k" and "\<not> falsy_string (account c)"
  shows "filter is_network_call (effects (snd (loadActiveLoans env c r)))
           = filter is_network_call (effects r) @ [GetAllActiveLoans]"
  using assms
  by (auto simp add: loadActiveLoans_def loadActiveLoans_try_def monad_defs
        split: prod.splits sum.splits)

lemma loadActiveLoans_keeps_form:
  "formData (view (snd (loadActiveLoans env c r))) = formData (view r)"
  by (auto simp add: loadActiveLoans_def loadActiveLoans_try_def monad_defs showToastMessage_def
        split: prod.splits sum.splits)

lemma ten_days:
  "ceil_num (div_num (number_of_int 864000000) (number_of_int 86400000)) = number_of_int 10"
  by code_simp

lemma ten_positive: "\<not> less_eq_num (number_of_int 10) (number_of_int 0)"
  by code_simp

lemma one_ether: "parseEther ''1.0'' = Inr 1000000000000000000"
  by code_simp

lemma two_ether: "parseEther ''2.0'' = Inr 2000000000000000000"
  by code_simp

lemma rate_five: "floor_num (string_to_number ''5'') = number_of_int 5"
  by code_simp

lemma gasLimit_hex: "gasLimit = ''0x0f4240''"
  by code_simp

text \<open>
  C6. The form holds amount 1.0, collateral 2.0, rate 5 and a due date exactly ten days
  (864000000 milliseconds) after now; the contract is bound, an account is connected,
  and the provider, the nonce query, the transaction, its confirmation and the balance
  query all answer. Then \<open>createLoanRequest\<close> completes normally and its calls are, in
  order: the nonce query, one \<^verbatim>\<open>createLoanRequest\<close> transaction with principal
  \<open>10 ^ 18\<close> wei, duration 10, rate 5, attached value \<open>2 \<times> 10 ^ 18\<close> wei, the fetched nonce and
  gas limit 1000000, the wait for its confirmation, the balance query and the re-fetch of
  the loan list. At the end the form is empty and the success notification is shown.
\<close>

theorem submit_ten_day_loan:
  assumes "contract c = Some k"
    and "account c = Some a" and "a \<noteq> []"
    and "formData c = \<lparr>amount = ''1.0'', date = d, collateral = ''2.0'', interestRate = ''5''\<rparr>"
    and "sub_num (dateValue env d) (now env) = number_of_int 864000000"
    and "web3Provider env = None"
    and "getTransactionCount env (Some a) = Inr nonce"
    and "sendCreateLoanRequest env 1000000000000000000 (number_of_int 10) (number_of_int 5)
           \<lparr>tx_value = 2000000000000000000, tx_nonce = Some nonce, tx_gasLimit = ''0x0f4240''\<rparr>
         = None"
    and "waitTx env = None"
    and "getBalance env (Some a) = Inr b"
  shows "fst (createLoanRequest env c r) = Inr ()
       \<and> filter is_network_call (effects (snd (createLoanRequest env c r)))
           = filter is_network_call (effects r) @
             [GetTransactionCount (Some a),
              SendCreateLoanRequest 1000000000000000000 (number_of_int 10) (number_of_int 5)
                \<lparr>tx_value = 2000000000000000000, tx_nonce = Some nonce,
                 tx_gasLimit = ''0x0f4240''\<rparr>,
              WaitTx, GetBalance (Some a), GetAllActiveLoans]
       \<and> formData (view (snd (createLoanRequest env c r))) = empty_form
       \<and> toastMessage (view (snd (createLoanRequest env c r)))
           = ''Loan request created successfully''
       \<and> toastVariant (view (snd (createLoanRequest env c r))) = ''success''"
proof -
  let ?tx = "SendCreateLoanRequest 1000000000000000000 (number_of_int 10) (number_of_int 5)
               \<lparr>tx_value = 2000000000000000000, tx_nonce = Some nonce,
                tx_gasLimit = ''0x0f4240''\<rparr>"
  let ?r2 = "r\<lparr>effects := effects r @ [PreventDefault, GetTransactionCount (Some a), ?tx, WaitTx,
                           GetBalance (Some a)],
               view := (view r)\<lparr>balance := formatEther b\<rparr>\<rparr>"
  obtain r3 where l: "loadActiveLoans env c ?r2 = (Inr (), r3)"
    using loadActiveLoans_returns [of env c ?r2] by (cases "loadActiveLoans env c ?r2") simp
  have n: "\<not> falsy_string (account c)"
    using assms(2,3) by (simp add: falsy_string_def)
  have e3: "filter is_network_call (effects r3)
              = filter is_network_call (effects r) @
                [GetTransactionCount (Some a), ?tx, WaitTx, GetBalance (Some a), GetAllActiveLoans]"
    using loadActiveLoans_calls [OF assms(1) n, of env ?r2] l by simp
  have dur: "durationInDays env
               \<lparr>amount = ''1.0'', date = d, collateral = ''2.0'', interestRate = ''5''\<rparr>
             = number_of_int 10"
    using assms(5) by (simp add: durationInDays_def ten_days)
  have main: "createLoanRequest env c r
                = (Inr (), r3\<lparr>view := showToastMessage ''Loan request created successfully''
                                         ''success'' ((view r3)\<lparr>formData := empty_form\<rparr>)\<rparr>)"
    using assms l
    by (simp add: createLoanRequest_def createLoanRequest_try_def updateBalance_def monad_defs
          Let_def dur ten_positive one_ether two_ether rate_five gasLimit_hex)
  show ?thesis
    using e3 by (simp add: main showToastMessage_def)
qed


theorem submit_ten_day_loan_witness:
  "sub_num (dateValue (fake_env ''2000'') (date future_form)) (now (fake_env ''2000''))
     = number_of_int 864000000
   \<and> fst (createLoanRequest (fake_env ''2000'') (bound_view\<lparr>formData := future_form\<rparr>)
          (start (bound_view\<lparr>formData := future_form\<rparr>))) = Inr ()
   \<and> filter is_transaction
        (effects (snd (createLoanRequest (fake_env ''2000'') (bound_view\<lparr>formData := future_form\<rparr>)
          (start (bound_view\<lparr>formData := future_form\<rparr>)))))
       = [SendCreateLoanRequest 1000000000000000000 (number_of_int 10) (number_of_int 5)
            \<lparr>tx_value = 2000000000000000000, tx_nonce = Some (number_of_int 7),
             tx_gasLimit = ''0x0f4240''\<rparr>]
   \<and> formData (view (snd (createLoanRequest (fake_env ''2000'')
          (bound_view\<lparr>formData := future_form\<rparr>)
          (start (bound_view\<lparr>formData := future_form\<rparr>))))) = empty_form"
proof -
  let ?c = "bound_view\<lparr>formData := future_form\<rparr>"
  have t: "sub_num (dateValue (fake_env ''2000'') (date future_form)) (now (fake_env ''2000''))
             = number_of_int 864000000"
    by code_simp
  have a: "toLowerCase alice \<noteq> []"
    by (simp add: toLowerCase_def alice_def)
  have f: "formData ?c = \<lparr>amount = ''1.0'', date = date future_form, collateral = ''2.0'',
                          interestRate = ''5''\<rparr>"
    by (simp add: future_form_def)
  have "filter is_transaction (filter is_network_call xs) = filter is_transaction xs" for xs
    by (induction xs) (auto elim: is_transaction.elims)
  then have p: "filter is_transaction xs = filter is_transaction ys"
    if "filter is_network_call xs = ys" for xs ys
    using that by (metis filter_filter) 
  show ?thesis
    using t
      submit_ten_day_loan [where c = ?c and k = "Contract contractAddress"
        and a = "toLowerCase alice" and d = "date future_form" and env = "fake_env ''2000''"
        and nonce = "number_of_int 7" and b = 5000000000000000000 and r = "start ?c",
        OF _ _ a f t]
    by (auto simp add: bound_view_def fake_env_def start_def dest!: p)
qed


subsection \<open>The repayment total\<close>

text \<open>
  The conversion of the principal to dollars and back is made on doubles, through the
  decimal strings of \<^verbatim>\<open>formatEther\<close> and \<^verbatim>\<open>toString\<close>: 3 ether times 1500.02, divided by
  1500.02, is the double that prints as 2.9999999999999996.
\<close>

lemma round_trip_loses:
  "number_to_string (div_num (mul_num (string_to_number (formatEther 3000000000000000000))
      (string_to_number ''1500.02'')) (string_to_number ''1500.02'')) = ''2.9999999999999996''"
  by code_simp


text \<open>
  What \<open>repayLoan\<close> attaches to the transaction: with \<open>w\<close> the wei amount that comes
  back from the conversion of the principal, \<open>w\<close> plus the interest on \<open>w\<close>. The claimed
  total is sent exactly when the conversion gives the principal back.
\<close>

lemma repayLoan_attached_value:
  assumes "contract c = Some k"
    and "readActiveLoan env i = Inr loan"
    and "fetchEthPrice env = Inr price" and "truthy_num price"
    and "parseEther (number_to_string
           (div_num (mul_num (string_to_number (formatEther (ln_loanAmount loan))) price) price))
         = Inr w"
  shows "transactions (snd (repayLoan env c i r))
           = transactions r @
             [SendRepayLoan i
                \<lparr>tx_value = w + bn_div (w * ln_interestRate loan) 100, tx_nonce = None,
                 tx_gasLimit = ''0x0f4240''\<rparr>]"
proof -
  let ?tx = "SendRepayLoan i
               \<lparr>tx_value = w + bn_div (w * ln_interestRate loan) 100, tx_nonce = None,
                tx_gasLimit = ''0x0f4240''\<rparr>"
  let ?q = "r\<lparr>effects := effects r @ [ReadActiveLoan i, FetchEthPrice, ?tx]\<rparr>"
  define tail where
    "tail = seq (call_unit WaitTx (waitTx env))
              (seq (modify (showToastMessage ''Loan repaid successfully'' ''success''))
              (seq (updateBalance env c) (loadActiveLoans env c)))"
  have g: "gasLimit = ''0x0f4240''"
    by code_simp
  have "stable transactions tail"
    unfolding tail_def
    by (intro stable_intros quiet_updateBalance quiet_loadActiveLoans)
       (simp_all add: transactions_simps)
  then have nt: "transactions (snd (tail ?q)) = transactions r @ [?tx]"
    by (simp add: stable_def transactions_def)
  obtain res q' where tq: "tail ?q = (res, q')"
    by (cases "tail ?q")
  note t = repayLoan_try_def [of env c i, folded tail_def]
  show ?thesis
  proof (cases "sendRepayLoan env i
                  \<lparr>tx_value = w + bn_div (w * ln_interestRate loan) 100, tx_nonce = None,
                   tx_gasLimit = ''0x0f4240''\<rparr>")
    case None
    then show ?thesis
      using assms nt tq
      by (cases res)
         (simp_all add: repayLoan_def t getEthPrice_def falsy_price_def Let_def g monad_defs
            transactions_simps)
  next
    case (Some e)
    then show ?thesis
      using assms
      by (simp add: repayLoan_def t getEthPrice_def falsy_price_def Let_def g monad_defs
            transactions_def)
  qed
qed


text \<open>
  The conversion also fails on a principal that needs more than 53 bits, whose last
  digits are lost, and on a principal below \<open>10 ^ 12\<close> wei, which \<^verbatim>\<open>toString\<close> prints with
  an exponent that \<^verbatim>\<open>parseEther\<close> rejects.
\<close>

lemma round_trip_drops_digits:
  "parseEther (number_to_string
     (div_num (mul_num (string_to_number (formatEther 1000000000000000001))
        (string_to_number ''2000'')) (string_to_number ''2000'')))
     = Inr 1000000000000000000"
  by code_simp

lemma round_trip_rejects_one_wei:
  "parseEther (number_to_string
     (div_num (mul_num (string_to_number (formatEther 1))
        (string_to_number ''2000'')) (string_to_number ''2000'')))
     = Inl (Error (Some ''invalid decimal value''))"
  by code_simp

text \<open>
  C1 fails on the code. For the active loan of 3 ether at 5 percent the total due is
  \<open>3150000000000000000\<close> wei. With the fetched price 1500.02 the transaction that
  \<open>repayLoan\<close> sends carries \<open>3149999999999999580\<close> wei, 420 wei short; with the fetched
  price 2000 it carries the total due. So the attached value is not the principal plus
  interest for every positive price, and it is not invariant under the price.
\<close>

theorem repayment_total_depends_on_price:
  "ln_loanAmount loan_of_alice = 3000000000000000000
   \<and> ln_interestRate loan_of_alice = 5
   \<and> ln_loanAmount loan_of_alice
       + (ln_loanAmount loan_of_alice * ln_interestRate loan_of_alice) div 100
       = 3150000000000000000
   \<and> transactions (snd (repayLoan (fake_env ''1500.02'') bound_view (number_of_int 1)
                         (start bound_view)))
       = [SendRepayLoan (number_of_int 1)
            \<lparr>tx_value = 3149999999999999580, tx_nonce = None, tx_gasLimit = ''0x0f4240''\<rparr>]
   \<and> transactions (snd (repayLoan (fake_env ''2000'') bound_view (number_of_int 1)
                         (start bound_view)))
       = [SendRepayLoan (number_of_int 1)
            \<lparr>tx_value = 3150000000000000000, tx_nonce = None, tx_gasLimit = ''0x0f4240''\<rparr>]"
proof -
  have p: "parseEther (number_to_string
             (div_num (mul_num (string_to_number (formatEther 3000000000000000000))
                (string_to_number ''1500.02'')) (string_to_number ''1500.02'')))
             = Inr 2999999999999999600"
    by code_simp
  have q: "parseEther (number_to_string
             (div_num (mul_num (string_to_number (formatEther 3000000000000000000))
                (string_to_number ''2000'')) (string_to_number ''2000'')))
             = Inr 3000000000000000000"
    by code_simp
  have t: "truthy_num (string_to_number ''1500.02'')" "truthy_num (string_to_number ''2000'')"
    by code_simp+
  have i: "bn_div (2999999999999999600 * 5) 100 = 149999999999999980"
    "bn_div (3000000000000000000 * 5) 100 = 150000000000000000"
    by (simp_all add: bn_div_def)
  have k: "contract bound_view = Some (Contract contractAddress)"
    by (simp add: bound_view_def)
  have "transactions (snd (repayLoan (fake_env ''1500.02'') bound_view (number_of_int 1)
                             (start bound_view)))
          = [SendRepayLoan (number_of_int 1)
               \<lparr>tx_value = 3149999999999999580, tx_nonce = None, tx_gasLimit = ''0x0f4240''\<rparr>]"
    using repayLoan_attached_value
            [where env = "fake_env ''1500.02''" and c = bound_view and i = "number_of_int 1"
               and loan = loan_of_alice and price = "string_to_number ''1500.02''"
               and w = 2999999999999999600 and r = "start bound_view", OF k]
          p t i
    by (simp add: fake_env_def loan_of_alice_def start_def transactions_def)
  moreover
  have "transactions (snd (repayLoan (fake_env ''2000'') bound_view (number_of_int 1)
                             (start bound_view)))
          = [SendRepayLoan (number_of_int 1)
               \<lparr>tx_value = 3150000000000000000, tx_nonce = None, tx_gasLimit = ''0x0f4240''\<rparr>]"
    using repayLoan_attached_value
            [where env = "fake_env ''2000''" and c = bound_view and i = "number_of_int 1"
               and loan = loan_of_alice and price = "string_to_number ''2000''"
               and w = 3000000000000000000 and r = "start bound_view", OF k]
          q t i
    by (simp add: fake_env_def loan_of_alice_def start_def transactions_def)
  ultimately show ?thesis
    by (simp add: loan_of_alice_def)
qed

end
